theory Spec2Isabelle
  imports Main "HOL-Library.Char_ord"
begin

section \<open>Data model (models/schemas.py)\<close>

datatype Severity = CRITICAL | HIGH | MEDIUM | LOW | INFO

datatype FindingType =
  STYLE | TYPE_ERROR | COMPLEXITY | SECURITY | PERFORMANCE | MAINTAINABILITY | BUG | CODE_SMELL

datatype Priority = URGENT | PRIO_HIGH | PRIO_MEDIUM | PRIO_LOW

text \<open>
  \<open>Location\<close> and \<open>Finding\<close> are pydantic models; an \<open>Optional\<close> field is an
  \<open>option\<close>, absent fields take the default \<open>None\<close> / \<open>False\<close>.
\<close>

record Location =
  file_path :: string
  line :: "int option"
  column :: "int option"
  end_line :: "int option"
  function_name :: "string option"

record Finding =
  type :: FindingType
  severity :: Severity
  location :: Location
  message :: string
  rule_id :: "string option"
  fix_available :: bool

record Recommendation =
  priority :: Priority
  category :: string
  action :: string
  rationale :: string
  impact :: string
  effort :: "string option"
  related_findings :: "string list"

record GitMetrics =
  total_commits :: int
  total_contributors :: int
  hot_spots :: "string list"
  large_files :: "string list"
  last_commit_date :: "string option"

text \<open>\<open>Location(file=f)\<close>: every optional field left at its default.\<close>

definition Location_file_only :: "string \<Rightarrow> Location" where
  "Location_file_only f =
     \<lparr>file_path = f, line = None, column = None, end_line = None, function_name = None\<rparr>"

section \<open>Python built-ins used by the analyzers\<close>

text \<open>
  A string is a list of characters, and a character stands for a code point: the 128
  ASCII characters for themselves, the others for code points outside ASCII. Python's
  \<open>str.isalpha\<close>, \<open>int\<close> and the classes \<open>\\d\<close>, \<open>\\w\<close>, \<open>\\s\<close> of \<open>re\<close> follow the
  Unicode database. Its part outside ASCII is a parameter of the model: whether a
  character is alphabetic, whether it is alphanumeric, its value when it is a decimal
  digit, and whether it is white space.
\<close>

record unicode =
  alphabetic :: "char \<Rightarrow> bool"
  alphanumeric :: "char \<Rightarrow> bool"
  decimal :: "char \<Rightarrow> int option"
  whitespace :: "char \<Rightarrow> bool"

definition ascii :: "char \<Rightarrow> bool" where
  "ascii c = (of_char c < (128 :: nat))"

text \<open>\<open>c.isalpha()\<close>\<close>

definition isalpha :: "unicode \<Rightarrow> char \<Rightarrow> bool" where
  "isalpha u c =
     (if ascii c then (CHR ''a'' \<le> c \<and> c \<le> CHR ''z'') \<or> (CHR ''A'' \<le> c \<and> c \<le> CHR ''Z'')
      else alphabetic u c)"

section \<open>Linter adapter (analyzer/ruff_analyzer.py)\<close>

text \<open>\<open>RuffAnalyzer.SEVERITY_MAP\<close>, a dict literal, as a map.\<close>

definition ruff_SEVERITY_MAP :: "string \<rightharpoonup> Severity" where
  "ruff_SEVERITY_MAP = map_of
     [(''E'', MEDIUM), (''F'', HIGH), (''W'', LOW), (''I'', LOW), (''N'', LOW),
      (''UP'', MEDIUM), (''S'', HIGH), (''B'', MEDIUM), (''A'', MEDIUM),
      (''C4'', LOW), (''T20'', LOW)]"

text \<open>
  The loop of \<open>_get_severity_for_rule\<close>: append characters to \<open>prefix\<close> until the
  first one that is not alphabetic.
\<close>

fun rule_prefix_loop :: "unicode \<Rightarrow> string \<Rightarrow> string \<Rightarrow> string" where
  "rule_prefix_loop u prefix [] = prefix"
| "rule_prefix_loop u prefix (char # rest) =
     (if isalpha u char then rule_prefix_loop u (prefix @ [char]) rest else prefix)"

definition get_severity_for_rule :: "unicode \<Rightarrow> string \<Rightarrow> Severity" where
  "get_severity_for_rule u rule_code =
     (let prefix = rule_prefix_loop u [] rule_code
      in case ruff_SEVERITY_MAP prefix of Some s \<Rightarrow> s | None \<Rightarrow> MEDIUM)"

section \<open>Structural analyzer (analyzer/ast_analyzer.py)\<close>

subsection \<open>Syntax trees\<close>

text \<open>
  The part of Python's \<open>ast\<close> that the analyzer looks at. Function and class definitions
  keep the attributes the code reads; the other node classes that the complexity visitor
  dispatches on carry their child nodes in field order; every remaining class (\<open>Module\<close>,
  \<open>Return\<close>, \<open>Name\<close>, \<open>Try\<close>, \<open>IfExp\<close>, \<open>AsyncFor\<close>, \<open>AsyncWith\<close>, \<open>And\<close>, ...)
  is \<open>Other\<close> with its child nodes.

  \<open>trailing\<close> holds the child nodes that follow \<open>body\<close> (decorators, return annotation,
  type parameters); \<open>bases\<close> holds base classes followed by keywords.
\<close>

datatype ast =
    is_FunctionDef: FunctionDef
      (name: string) (lineno: int) (col_offset: int) (end_lineno: "int option")
      (args: ast) (body: "ast list") (trailing: "ast list")
  | is_AsyncFunctionDef: AsyncFunctionDef
      (name: string) (lineno: int) (col_offset: int) (end_lineno: "int option")
      (args: ast) (body: "ast list") (trailing: "ast list")
  | is_ClassDef: ClassDef
      (name: string) (lineno: int) (col_offset: int)
      (bases: "ast list") (body: "ast list") (trailing: "ast list")
  | arguments (posonlyargs: "ast list") (args_list: "ast list") (args_rest: "ast list")
  | is_If: If "ast list"
  | is_For: For "ast list"
  | is_While: While "ast list"
  | is_ExceptHandler: ExceptHandler "ast list"
  | is_With: With "ast list"
  | is_BoolOp: BoolOp (op: ast) (values_list: "ast list")
  | Other "ast list"

text \<open>\<open>ast.iter_child_nodes\<close>: the child nodes, in field order.\<close>

fun iter_child_nodes :: "ast \<Rightarrow> ast list" where
  "iter_child_nodes (FunctionDef n l c e a b t) = a # b @ t"
| "iter_child_nodes (AsyncFunctionDef n l c e a b t) = a # b @ t"
| "iter_child_nodes (ClassDef n l c bs b t) = bs @ b @ t"
| "iter_child_nodes (arguments p a r) = p @ a @ r"
| "iter_child_nodes (If cs) = cs"
| "iter_child_nodes (For cs) = cs"
| "iter_child_nodes (While cs) = cs"
| "iter_child_nodes (ExceptHandler cs) = cs"
| "iter_child_nodes (With cs) = cs"
| "iter_child_nodes (BoolOp operator vs) = operator # vs"
| "iter_child_nodes (Other cs) = cs"

lemma size_list_sum: "sum_list (map size xs) \<le> size_list size xs"
  by (induction xs) simp_all

lemma child_nodes_sum_size: "sum_list (map size (iter_child_nodes node)) < size node"
proof (cases node)
  case (FunctionDef n l c e a b t)
  show ?thesis
    using size_list_sum [of b] size_list_sum [of t] by (simp add: FunctionDef)
next
  case (AsyncFunctionDef n l c e a b t)
  show ?thesis
    using size_list_sum [of b] size_list_sum [of t] by (simp add: AsyncFunctionDef)
next
  case (ClassDef n l c bs b t)
  show ?thesis
    using size_list_sum [of bs] size_list_sum [of b] size_list_sum [of t]
    by (simp add: ClassDef)
next
  case (arguments p a r)
  show ?thesis
    using size_list_sum [of p] size_list_sum [of a] size_list_sum [of r]
    by (simp add: arguments)
next
  case (If cs)
  show ?thesis using size_list_sum [of cs] by (simp add: If)
next
  case (For cs)
  show ?thesis using size_list_sum [of cs] by (simp add: For)
next
  case (While cs)
  show ?thesis using size_list_sum [of cs] by (simp add: While)
next
  case (ExceptHandler cs)
  show ?thesis using size_list_sum [of cs] by (simp add: ExceptHandler)
next
  case (With cs)
  show ?thesis using size_list_sum [of cs] by (simp add: With)
next
  case (BoolOp operator vs)
  show ?thesis using size_list_sum [of vs] by (simp add: BoolOp)
next
  case (Other cs)
  show ?thesis using size_list_sum [of cs] by (simp add: Other)
qed

lemma child_node_size: "child \<in> set (iter_child_nodes node) \<Longrightarrow> size child < size node"
proof -
  assume "child \<in> set (iter_child_nodes node)"
  then have "size child \<le> sum_list (map size (iter_child_nodes node))"
    by (simp add: member_le_sum_list)
  then show ?thesis
    using child_nodes_sum_size [of node] by simp
qed

text \<open>
  \<open>ast.walk\<close>: breadth first, from a queue; a node is yielded after its children have
  been appended to the queue.
\<close>

function walk_loop :: "ast list \<Rightarrow> ast list" where
  "walk_loop [] = []"
| "walk_loop (node # todo) = node # walk_loop (todo @ iter_child_nodes node)"
  by pat_completeness auto
termination
proof (relation "measure (\<lambda>todo. sum_list (map size todo))")
  show "wf (measure (\<lambda>todo. sum_list (map size todo)))" by simp
next
  fix node :: ast and todo :: "ast list"
  show "(todo @ iter_child_nodes node, node # todo) \<in> measure (\<lambda>todo. sum_list (map size todo))"
    using child_nodes_sum_size [of node] by simp
qed

definition walk :: "ast \<Rightarrow> ast list" where
  "walk node = walk_loop [node]"

subsection \<open>ComplexityVisitor\<close>

text \<open>
  The visitor's only state is \<open>self.complexity\<close>; it is threaded through the visit.
  \<open>visit\<close> dispatches on the node class to \<open>visit_If\<close>, \<open>visit_For\<close>, \<open>visit_While\<close>,
  \<open>visit_ExceptHandler\<close>, \<open>visit_With\<close>, \<open>visit_BoolOp\<close>, each of which adds to the
  counter and then calls \<open>generic_visit\<close>; every other class goes to \<open>generic_visit\<close>
  directly, which visits the child nodes in order.
\<close>

function (sequential) visit :: "ast \<Rightarrow> int \<Rightarrow> int"
  and generic_visit :: "ast \<Rightarrow> int \<Rightarrow> int" where
  "visit (If cs) complexity = generic_visit (If cs) (complexity + 1)"
| "visit (For cs) complexity = generic_visit (For cs) (complexity + 1)"
| "visit (While cs) complexity = generic_visit (While cs) (complexity + 1)"
| "visit (ExceptHandler cs) complexity = generic_visit (ExceptHandler cs) (complexity + 1)"
| "visit (With cs) complexity = generic_visit (With cs) (complexity + 1)"
| "visit (BoolOp operator vs) complexity =
     generic_visit (BoolOp operator vs) (complexity + (int (length vs) - 1))"
| "visit node complexity = generic_visit node complexity"
| "generic_visit node complexity = fold visit (iter_child_nodes node) complexity"
  by pat_completeness auto
termination
  by (relation "measure (\<lambda>x. case x of Inl (node, c) \<Rightarrow> 2 * size node + 1
                                      | Inr (node, c) \<Rightarrow> 2 * size node)")
     (auto dest: child_node_size)

text \<open>\<open>visitor = ComplexityVisitor(); visitor.visit(node); visitor.complexity\<close>\<close>

definition function_complexity :: "ast \<Rightarrow> int" where
  "function_complexity node = visit node 1"

subsection \<open>Formatting integers\<close>

text \<open>\<open>str(n)\<close> and \<open>f"{n}"\<close> for an integer: decimal digits, with a minus sign.\<close>

definition digit_char :: "nat \<Rightarrow> char" where
  "digit_char d = ''0123456789'' ! d"

function str_nat :: "nat \<Rightarrow> string" where
  "str_nat n = (if n < 10 then [digit_char n] else str_nat (n div 10) @ [digit_char (n mod 10)])"
  by pat_completeness auto
termination
  by (relation "measure (\<lambda>n. n)") auto

definition str_int :: "int \<Rightarrow> string" where
  "str_int i = (if i < 0 then ''-'' @ str_nat (nat (- i)) else str_nat (nat i))"

text \<open>\<open>len(xs)\<close> is a Python integer.\<close>

definition len :: "'a list \<Rightarrow> int" where
  "len xs = int (length xs)"

subsection \<open>ASTAnalyzer\<close>

record ASTAnalyzer =
  complexity_threshold :: int

text \<open>\<open>ASTAnalyzer()\<close>: the constructor's default threshold.\<close>

definition ASTAnalyzer_default :: ASTAnalyzer where
  "ASTAnalyzer_default = \<lparr>complexity_threshold = 10\<rparr>"

definition quote :: string where
  "quote = [CHR 0x27]"

text \<open>
  \<open>_analyze_function\<close>. The three checks append to \<open>findings\<close> in turn.
  \<open>hasattr(node, "end_lineno") and node.end_lineno\<close> holds when the attribute is
  neither \<open>None\<close> nor 0.
\<close>

definition analyze_function :: "ASTAnalyzer \<Rightarrow> ast \<Rightarrow> string \<Rightarrow> Finding list" where
  "analyze_function self node path =
    (let complexity = function_complexity node;
         findings1 =
           (if complexity > complexity_threshold self then
              [\<lparr>type = COMPLEXITY,
                severity = (if complexity > complexity_threshold self * 2 then HIGH else MEDIUM),
                location = \<lparr>file_path = path, line = Some (lineno node),
                             column = Some (col_offset node), end_line = None,
                             function_name = Some (name node)\<rparr>,
                message = ''Function '' @ quote @ name node @ quote
                            @ '' has high cyclomatic complexity ('' @ str_int complexity @ '')'',
                rule_id = Some ''AST100'',
                fix_available = False\<rparr>]
            else []);
         arg_count = len (args_list (args node));
         findings2 =
           (if arg_count > 7 then
              [\<lparr>type = CODE_SMELL,
                severity = MEDIUM,
                location = \<lparr>file_path = path, line = Some (lineno node),
                             column = Some (col_offset node), end_line = None,
                             function_name = Some (name node)\<rparr>,
                message = ''Function '' @ quote @ name node @ quote
                            @ '' has too many arguments ('' @ str_int arg_count @ '')'',
                rule_id = Some ''AST101'',
                fix_available = False\<rparr>]
            else []);
         findings3 =
           (case end_lineno node of
              None \<Rightarrow> []
            | Some e \<Rightarrow>
                if e = 0 then []
                else (let func_length = e - lineno node
                      in if func_length > 50 then
                           [\<lparr>type = MAINTAINABILITY,
                             severity = LOW,
                             location = \<lparr>file_path = path, line = Some (lineno node),
                                          column = Some (col_offset node), end_line = Some e,
                                          function_name = Some (name node)\<rparr>,
                             message = ''Function '' @ quote @ name node @ quote
                                         @ '' is very long ('' @ str_int func_length @ '' lines)'',
                             rule_id = Some ''AST102'',
                             fix_available = False\<rparr>]
                         else []))
     in findings1 @ findings2 @ findings3)"

text \<open>\<open>_analyze_class\<close>: the methods are the \<open>FunctionDef\<close> nodes of the class body.\<close>

definition analyze_class :: "ASTAnalyzer \<Rightarrow> ast \<Rightarrow> string \<Rightarrow> Finding list" where
  "analyze_class self node path =
    (let methods = filter is_FunctionDef (body node)
     in if len methods > 20 then
          [\<lparr>type = CODE_SMELL,
            severity = MEDIUM,
            location = \<lparr>file_path = path, line = Some (lineno node),
                         column = Some (col_offset node), end_line = None,
                         function_name = None\<rparr>,
            message = ''Class '' @ quote @ name node @ quote @ '' has too many methods (''
                        @ str_int (len methods) @ ''). Consider splitting it.'',
            rule_id = Some ''AST200'',
            fix_available = False\<rparr>]
        else [])"

text \<open>
  \<open>_analyze_tree\<close>: one pass over \<open>ast.walk(tree)\<close>; the \<open>isinstance\<close> tests select
  \<open>FunctionDef\<close> and \<open>ClassDef\<close> nodes, every other node is skipped.
\<close>

definition analyze_tree_step :: "ASTAnalyzer \<Rightarrow> string \<Rightarrow> ast \<Rightarrow> Finding list \<Rightarrow> Finding list" where
  "analyze_tree_step self path node findings =
     (if is_FunctionDef node then findings @ analyze_function self node path
      else if is_ClassDef node then findings @ analyze_class self node path
      else findings)"

definition analyze_tree :: "ASTAnalyzer \<Rightarrow> ast \<Rightarrow> string \<Rightarrow> Finding list" where
  "analyze_tree self tree path = fold (analyze_tree_step self path) (walk tree) []"

text \<open>What one node of the walk contributes to the findings of \<open>_analyze_tree\<close>.\<close>

definition node_findings :: "ASTAnalyzer \<Rightarrow> string \<Rightarrow> ast \<Rightarrow> Finding list" where
  "node_findings self path node =
     (if is_FunctionDef node then analyze_function self node path
      else if is_ClassDef node then analyze_class self node path
      else [])"

text \<open>
  \<open>analyze_file\<close>. Reading the file and \<open>ast.parse\<close> are the environment: their outcome
  is an argument, either the tree or the exception raised. \<open>SyntaxError\<close> (with its
  subclasses) carries \<open>lineno\<close>, \<open>offset\<close> (each possibly \<open>None\<close>) and \<open>msg\<close>;
  \<open>json.JSONDecodeError\<close>, \<open>subprocess.TimeoutExpired\<close>, \<open>FileNotFoundError\<close> and
  every other \<open>Exception\<close> carry \<open>str(e)\<close>.
\<close>

datatype exn =
    is_SyntaxError: SyntaxError
      (exn_lineno: "int option") (exn_offset: "int option") (exn_msg: string)
  | JSONDecodeError string
  | TimeoutExpired string
  | FileNotFoundError string
  | Exception string

text \<open>\<open>str(e)\<close> for an exception that is not a syntax error.\<close>

fun str_exn :: "exn \<Rightarrow> string" where
  "str_exn (JSONDecodeError text) = text"
| "str_exn (TimeoutExpired text) = text"
| "str_exn (FileNotFoundError text) = text"
| "str_exn (Exception text) = text"
| "str_exn (SyntaxError l off msg) = msg"

text \<open>\<open>x or 0\<close> for an optional integer: \<open>None\<close> and 0 both give 0.\<close>

definition or_zero :: "int option \<Rightarrow> int" where
  "or_zero x = (case x of None \<Rightarrow> 0 | Some v \<Rightarrow> if v = 0 then 0 else v)"

text \<open>The body of the \<open>try\<close>: an exception of the read or the parse leaves it.\<close>

definition analyze_file_try :: "ASTAnalyzer \<Rightarrow> string \<Rightarrow> exn + ast \<Rightarrow> exn + Finding list" where
  "analyze_file_try self path parsed =
    (case parsed of
       Inl e \<Rightarrow> Inl e
     | Inr tree \<Rightarrow> Inr ([] @ analyze_tree self tree path))"

text \<open>
  The two handlers turn the exception into a finding; the result is \<open>Inr\<close> when the
  function returns and \<open>Inl\<close> when an exception leaves it.
\<close>

definition analyze_file :: "ASTAnalyzer \<Rightarrow> string \<Rightarrow> exn + ast \<Rightarrow> exn + Finding list" where
  "analyze_file self path parsed =
    (case analyze_file_try self path parsed of
       Inr findings \<Rightarrow> Inr findings
     | Inl (SyntaxError l off msg) \<Rightarrow>
         Inr [\<lparr>type = BUG, severity = CRITICAL,
               location = \<lparr>file_path = path, line = Some (or_zero l),
                            column = Some (or_zero off),
                            end_line = None, function_name = None\<rparr>,
               message = ''Syntax error: '' @ msg,
               rule_id = Some ''AST001'',
               fix_available = False\<rparr>]
     | Inl e \<Rightarrow>
         Inr [\<lparr>type = BUG, severity = HIGH,
               location = Location_file_only path,
               message = ''Failed to analyze file: '' @ str_exn e,
               rule_id = Some ''AST000'',
               fix_available = False\<rparr>])"

section \<open>Linter adapter, continued (analyzer/ruff_analyzer.py)\<close>

subsection \<open>Parsed JSON\<close>

text \<open>
  What \<open>json.loads\<close> returns: \<open>None\<close>, a bool, an int, a float (mantissa and binary
  exponent), a string, a list, or a dict, kept as its items (one per key).
\<close>

datatype json =
    JNull
  | JBool bool
  | JInt int
  | JFloat int int
  | JStr string
  | JArray "json list"
  | JObject "(string \<times> json) list"

text \<open>\<open>d.get(key, fallback)\<close> on a dict.\<close>

definition dict_get :: "(string \<times> json) list \<Rightarrow> string \<Rightarrow> json \<Rightarrow> json" where
  "dict_get d key fallback = (case map_of d key of None \<Rightarrow> fallback | Some v \<Rightarrow> v)"

text \<open>\<open>x.get(key)\<close> on any value: only a dict has the method.\<close>

definition value_get :: "json \<Rightarrow> string \<Rightarrow> exn + json" where
  "value_get x key =
     (case x of
        JObject d \<Rightarrow> Inr (dict_get d key JNull)
      | _ \<Rightarrow> Inl (Exception ''AttributeError''))"

text \<open>
  Validation of the model fields by pydantic. A \<open>str\<close> field takes a string only. An
  \<open>Optional[int]\<close> field takes \<open>None\<close> and an int as they are; what it makes of any other
  value (a bool, a float, a numeric string) is the parameter \<open>coerce\<close>.
\<close>

definition str_field :: "json \<Rightarrow> exn + string" where
  "str_field v = (case v of JStr s \<Rightarrow> Inr s | _ \<Rightarrow> Inl (Exception ''ValidationError''))"

definition optional_int_field :: "(json \<Rightarrow> exn + int) \<Rightarrow> json \<Rightarrow> exn + int option" where
  "optional_int_field coerce v =
     (case v of
        JNull \<Rightarrow> Inr None
      | JInt n \<Rightarrow> Inr (Some n)
      | _ \<Rightarrow> (case coerce v of Inl e \<Rightarrow> Inl e | Inr n \<Rightarrow> Inr (Some n)))"

text \<open>A validator that refuses every value that is not an int already.\<close>

definition no_coercion :: "json \<Rightarrow> exn + int" where
  "no_coercion v = Inl (Exception ''ValidationError'')"

text \<open>\<open>Location(file=..., line=..., column=..., end_line=...)\<close> from unvalidated values.\<close>

definition Location_validate ::
  "(json \<Rightarrow> exn + int) \<Rightarrow> json \<Rightarrow> json \<Rightarrow> json \<Rightarrow> json \<Rightarrow> exn + Location" where
  "Location_validate coerce f l c e =
     (case str_field f of Inl x \<Rightarrow> Inl x | Inr f' \<Rightarrow>
      case optional_int_field coerce l of Inl x \<Rightarrow> Inl x | Inr l' \<Rightarrow>
      case optional_int_field coerce c of Inl x \<Rightarrow> Inl x | Inr c' \<Rightarrow>
      case optional_int_field coerce e of Inl x \<Rightarrow> Inl x | Inr e' \<Rightarrow>
        Inr \<lparr>file_path = f', line = l', column = c', end_line = e', function_name = None\<rparr>)"

subsection \<open>Converting linter issues\<close>

text \<open>\<open>s.startswith(p)\<close>\<close>

definition startswith :: "string \<Rightarrow> string \<Rightarrow> bool" where
  "startswith s p = (take (length p) s = p)"

text \<open>\<open>_get_finding_type\<close>\<close>

definition get_finding_type :: "string \<Rightarrow> FindingType" where
  "get_finding_type rule_code =
     (if startswith rule_code ''S'' then SECURITY
      else if startswith rule_code ''F'' \<or> startswith rule_code ''E9'' then BUG
      else if startswith rule_code ''E'' \<or> startswith rule_code ''W''
              \<or> startswith rule_code ''I'' \<or> startswith rule_code ''N'' then STYLE
      else if startswith rule_code ''PERF'' then PERFORMANCE
      else CODE_SMELL)"

text \<open>
  \<open>_convert_ruff_issue\<close>. The issue must be a dict, and so must the values under
  \<open>location\<close> and \<open>end_location\<close>, for \<open>.get\<close> to exist. A rule code that is not a string
  makes \<open>_get_severity_for_rule\<close> or \<open>_get_finding_type\<close> raise (it cannot be iterated,
  its items have no \<open>isalpha\<close>, or it has no \<open>startswith\<close>).
\<close>

definition convert_ruff_issue ::
  "unicode \<Rightarrow> (json \<Rightarrow> exn + int) \<Rightarrow> json \<Rightarrow> exn + Finding" where
  "convert_ruff_issue u coerce issue =
     (case issue of
        JObject d \<Rightarrow>
          (let location_data = dict_get d ''location'' (JObject []);
               end_location = dict_get d ''end_location'' (JObject [])
           in case value_get location_data ''row'' of Inl x \<Rightarrow> Inl x | Inr row \<Rightarrow>
              case value_get location_data ''column'' of Inl x \<Rightarrow> Inl x | Inr col \<Rightarrow>
              case value_get end_location ''row'' of Inl x \<Rightarrow> Inl x | Inr end_row \<Rightarrow>
              case Location_validate coerce (dict_get d ''filename'' (JStr ''unknown''))
                     row col end_row of Inl x \<Rightarrow> Inl x | Inr loc \<Rightarrow>
              (case dict_get d ''code'' (JStr []) of
                 JStr rule_code \<Rightarrow>
                   (let severity = get_severity_for_rule u rule_code;
                        finding_type = get_finding_type rule_code;
                        fix_available = (dict_get d ''fix'' JNull \<noteq> JNull)
                    in case str_field (dict_get d ''message'' (JStr ''No message provided'')) of
                         Inl x \<Rightarrow> Inl x
                       | Inr msg \<Rightarrow>
                           Inr \<lparr>type = finding_type, severity = severity,
                                location = loc, message = msg,
                                rule_id = Some rule_code, fix_available = fix_available\<rparr>)
               | _ \<Rightarrow> Inl (Exception ''TypeError'')))
      | _ \<Rightarrow> Inl (Exception ''AttributeError''))"

text \<open>
  \<open>for issue in issues\<close>: a list gives its items, a dict its keys, a string its
  characters; nothing else can be iterated.
\<close>

definition iterate :: "json \<Rightarrow> exn + json list" where
  "iterate issues =
     (case issues of
        JArray xs \<Rightarrow> Inr xs
      | JObject d \<Rightarrow> Inr (map (\<lambda>(k, v). JStr k) d)
      | JStr s \<Rightarrow> Inr (map (\<lambda>c. JStr [c]) s)
      | _ \<Rightarrow> Inl (Exception ''TypeError''))"

fun convert_issues ::
  "unicode \<Rightarrow> (json \<Rightarrow> exn + int) \<Rightarrow> json list \<Rightarrow> Finding list \<Rightarrow> exn + Finding list" where
  "convert_issues u coerce [] findings = Inr findings"
| "convert_issues u coerce (issue # rest) findings =
     (case convert_ruff_issue u coerce issue of
        Inl x \<Rightarrow> Inl x
      | Inr finding \<Rightarrow> convert_issues u coerce rest (findings @ [finding]))"

text \<open>
  \<open>_parse_ruff_output\<close>. \<open>json.loads\<close> is the parameter \<open>loads\<close>: it gives the parsed
  value or raises. Only \<open>JSONDecodeError\<close> is caught; any other exception leaves the
  function.
\<close>

definition parse_ruff_output_try ::
  "unicode \<Rightarrow> (json \<Rightarrow> exn + int) \<Rightarrow> (string \<Rightarrow> exn + json) \<Rightarrow> string
     \<Rightarrow> exn + Finding list" where
  "parse_ruff_output_try u coerce loads output =
     (case loads output of
        Inl x \<Rightarrow> Inl x
      | Inr issues \<Rightarrow>
          (case iterate issues of
             Inl x \<Rightarrow> Inl x
           | Inr items \<Rightarrow> convert_issues u coerce items []))"

definition parse_ruff_output ::
  "unicode \<Rightarrow> (json \<Rightarrow> exn + int) \<Rightarrow> (string \<Rightarrow> exn + json) \<Rightarrow> string
     \<Rightarrow> exn + Finding list" where
  "parse_ruff_output u coerce loads output =
     (case parse_ruff_output_try u coerce loads output of
        Inr findings \<Rightarrow> Inr findings
      | Inl (JSONDecodeError text) \<Rightarrow>
          Inr [\<lparr>type = BUG, severity = MEDIUM,
                location = Location_file_only ''ruff_output'',
                message = ''Failed to parse ruff output: '' @ text,
                rule_id = Some ''RUFF003'',
                fix_available = False\<rparr>]
      | Inl x \<Rightarrow> Inl x)"


section \<open>Type-checker adapter (analyzer/mypy_analyzer.py)\<close>

subsection \<open>Regular expressions\<close>

text \<open>
  The fragment of Python's \<open>re\<close> that the diagnostic pattern uses, with the matching
  order of the backtracking engine. A character set is a literal character, one of the
  classes \<open>\\d\<close>, \<open>\\w\<close>, \<open>\\s\<close>, the dot (anything but a newline), a bracket
  expression or a negated bracket expression.
\<close>

definition newline :: char where
  "newline = CHR 0x0A"

text \<open>
  \<open>\\d\<close> is a decimal digit, \<open>\\w\<close> an alphanumeric character or the underscore, \<open>\\s\<close>
  white space (in ASCII: blank, tab, line feed, vertical tab, form feed, carriage return
  and the four separators \<open>0x1C\<close> to \<open>0x1F\<close>).
\<close>

definition isdigit :: "unicode \<Rightarrow> char \<Rightarrow> bool" where
  "isdigit u c = (if ascii c then CHR ''0'' \<le> c \<and> c \<le> CHR ''9'' else decimal u c \<noteq> None)"

definition isword :: "unicode \<Rightarrow> char \<Rightarrow> bool" where
  "isword u c =
     (if ascii c then isalpha u c \<or> isdigit u c \<or> c = CHR ''_'' else alphanumeric u c)"

definition isspace :: "unicode \<Rightarrow> char \<Rightarrow> bool" where
  "isspace u c =
     (if ascii c
      then c \<in> set [CHR '' '', CHR 0x09, CHR 0x0A, CHR 0x0B, CHR 0x0C, CHR 0x0D,
                    CHR 0x1C, CHR 0x1D, CHR 0x1E, CHR 0x1F]
      else whitespace u c)"

datatype charset =
    Chr char
  | Digit
  | Word
  | Space
  | Dot
  | AnyOf "charset list"
  | NoneOf "charset list"

fun charset_matches :: "unicode \<Rightarrow> charset \<Rightarrow> char \<Rightarrow> bool" where
  "charset_matches u (Chr x) c = (c = x)"
| "charset_matches u Digit c = isdigit u c"
| "charset_matches u Word c = isword u c"
| "charset_matches u Space c = isspace u c"
| "charset_matches u Dot c = (c \<noteq> newline)"
| "charset_matches u (AnyOf items) c = list_ex (\<lambda>item. charset_matches u item c) items"
| "charset_matches u (NoneOf items) c = (\<not> list_ex (\<lambda>item. charset_matches u item c) items)"

text \<open>
  \<open>Bol\<close> and \<open>Eol\<close> are \<open>^\<close> and \<open>$\<close> under \<open>re.MULTILINE\<close>; \<open>Plus\<close> is the greedy
  \<open>+\<close> and \<open>PlusLazy\<close> the lazy \<open>+?\<close> on a character set; \<open>Group\<close> is a named group
  \<open>(?P<name>...)\<close>; \<open>Opt\<close> is a greedy \<open>(?:...)?\<close>; \<open>Cat\<close> is a sequence.
\<close>

datatype regex =
    Bol
  | Eol
  | One charset
  | Plus charset
  | PlusLazy charset
  | Group string regex
  | Opt regex
  | Cat "regex list"

text \<open>
  The groups captured so far, most recent first, and \<open>groupdict()\<close>'s lookup: the
  value of a group that took no part in the match is \<open>None\<close>.
\<close>

type_synonym groups = "(string \<times> string) list"

definition group :: "groups \<Rightarrow> string \<Rightarrow> string option" where
  "group g group_name = map_of g group_name"

text \<open>\<open>s[i:j]\<close>\<close>

definition slice :: "string \<Rightarrow> nat \<Rightarrow> nat \<Rightarrow> string" where
  "slice s i j = take (j - i) (drop i s)"

text \<open>The number of consecutive characters of the set from position \<open>i\<close> on.\<close>

definition run_length :: "unicode \<Rightarrow> charset \<Rightarrow> string \<Rightarrow> nat \<Rightarrow> nat" where
  "run_length u cs s i = length (takeWhile (charset_matches u cs) (drop i s))"

text \<open>
  A greedy repetition tries the continuation after the longest run first and gives back
  one character at a time, down to a single character; a lazy one starts with a single
  character and takes one more at a time.
\<close>

fun try_longest_first :: "(nat \<Rightarrow> 'r option) \<Rightarrow> nat \<Rightarrow> nat \<Rightarrow> 'r option" where
  "try_longest_first k i 0 = None"
| "try_longest_first k i (Suc n) =
     (case k (i + Suc n) of Some r \<Rightarrow> Some r | None \<Rightarrow> try_longest_first k i n)"

fun try_shortest_first :: "(nat \<Rightarrow> 'r option) \<Rightarrow> nat \<Rightarrow> nat \<Rightarrow> 'r option" where
  "try_shortest_first k i 0 = None"
| "try_shortest_first k i (Suc n) =
     (case k (Suc i) of Some r \<Rightarrow> Some r | None \<Rightarrow> try_shortest_first k (Suc i) n)"

text \<open>
  Matching \<open>r\<close> in \<open>s\<close> at position \<open>i\<close> with groups \<open>g\<close>, then the rest of the pattern
  as the continuation \<open>k\<close>; \<open>None\<close> is failure, after which the caller backtracks.
\<close>

fun match_here ::
  "unicode \<Rightarrow> regex \<Rightarrow> string \<Rightarrow> nat \<Rightarrow> groups \<Rightarrow> (nat \<Rightarrow> groups \<Rightarrow> 'r option) \<Rightarrow> 'r option" where
  "match_here u Bol s i g k = (if i = 0 \<or> s ! (i - 1) = newline then k i g else None)"
| "match_here u Eol s i g k = (if i = length s \<or> s ! i = newline then k i g else None)"
| "match_here u (One cs) s i g k =
     (if i < length s \<and> charset_matches u cs (s ! i) then k (Suc i) g else None)"
| "match_here u (Plus cs) s i g k = try_longest_first (\<lambda>j. k j g) i (run_length u cs s i)"
| "match_here u (PlusLazy cs) s i g k = try_shortest_first (\<lambda>j. k j g) i (run_length u cs s i)"
| "match_here u (Group group_name r) s i g k =
     match_here u r s i g (\<lambda>j g'. k j ((group_name, slice s i j) # g'))"
| "match_here u (Opt r) s i g k =
     (case match_here u r s i g k of Some res \<Rightarrow> Some res | None \<Rightarrow> k i g)"
| "match_here u (Cat []) s i g k = k i g"
| "match_here u (Cat (r # rs)) s i g k = match_here u r s i g (\<lambda>j g'. match_here u (Cat rs) s j g' k)"

text \<open>
  \<open>pattern.search(s, pos)\<close>: the first position from \<open>pos\<close> on at which the pattern
  matches, with the end of the match and the groups.
\<close>

function search :: "unicode \<Rightarrow> regex \<Rightarrow> string \<Rightarrow> nat \<Rightarrow> (nat \<times> nat \<times> groups) option" where
  "search u r s pos =
     (if pos > length s then None
      else (case match_here u r s pos [] (\<lambda>j g. Some (j, g)) of
              Some (j, g) \<Rightarrow> Some (pos, j, g)
            | None \<Rightarrow> search u r s (Suc pos)))"
  by pat_completeness auto
termination
  by (relation "measure (\<lambda>(u, r, s, pos). Suc (length s) - pos)") auto

declare search.simps [simp del]

lemma search_bounds:
  "search u r s pos = Some (start, stop, g) \<Longrightarrow> pos \<le> start \<and> start \<le> length s"
proof (induction u r s pos rule: search.induct)
  case (1 u r s pos)
  show ?case
  proof (cases "pos > length s")
    case True
    then show ?thesis using "1.prems" by (simp add: search.simps)
  next
    case False
    show ?thesis
    proof (cases "match_here u r s pos [] (\<lambda>j g. Some (j, g))")
      case None
      then have "search u r s (Suc pos) = Some (start, stop, g)"
        using "1.prems" False by (simp add: search.simps [of u r s pos])
      then have "Suc pos \<le> start \<and> start \<le> length s"
        using "1.IH" False None by simp
      then show ?thesis by simp
    next
      case (Some res)
      then show ?thesis using "1.prems" False
        by (cases res) (simp add: search.simps [of u r s pos])
    qed
  qed
qed

text \<open>
  \<open>pattern.finditer(s)\<close>: the successive non-overlapping matches, each search starting
  where the previous match ended (one position further after an empty match).
\<close>

function finditer :: "unicode \<Rightarrow> regex \<Rightarrow> string \<Rightarrow> nat \<Rightarrow> groups list" where
  "finditer u r s pos =
     (case search u r s pos of
        None \<Rightarrow> []
      | Some (start, stop, g) \<Rightarrow> g # finditer u r s (if start < stop then stop else Suc start))"
  by pat_completeness auto
termination
proof (relation "measure (\<lambda>(u, r, s, pos). Suc (length s) - pos)", goal_cases)
  case 1
  show ?case by simp
next
  case (2 u r s pos found start rest stop g)
  then have "search u r s pos = Some (start, stop, g)" by simp
  then have "pos \<le> start \<and> start \<le> length s" by (rule search_bounds)
  then show ?case by auto
qed

declare finditer.simps [simp del]

subsection \<open>Parsing the diagnostics\<close>

text \<open>\<open>MypyAnalyzer.SEVERITY_MAP\<close>\<close>

definition mypy_SEVERITY_MAP :: "string \<rightharpoonup> Severity" where
  "mypy_SEVERITY_MAP = map_of
     [(''syntax'', CRITICAL), (''attr-defined'', HIGH), (''name-defined'', HIGH),
      (''call-arg'', HIGH), (''arg-type'', MEDIUM), (''return-value'', MEDIUM),
      (''assignment'', MEDIUM), (''type-arg'', MEDIUM), (''no-untyped-def'', LOW),
      (''no-any-return'', LOW), (''unused-ignore'', INFO)]"

text \<open>
  The pattern of \<open>_parse_mypy_output\<close>, compiled with \<open>re.MULTILINE\<close>:
  \<^verbatim>\<open>^(?P<file>[^:]+):(?P<line>\d+):(?P<col>\d+): (?P<level>\w+): (?P<message>.+?)(?:\s+\[(?P<code>[\w-]+)\])?$\<close>
\<close>

definition mypy_pattern :: regex where
  "mypy_pattern =
     Cat [Bol,
          Group ''file'' (Plus (NoneOf [Chr (CHR '':'')])), One (Chr (CHR '':'')),
          Group ''line'' (Plus Digit), One (Chr (CHR '':'')),
          Group ''col'' (Plus Digit), One (Chr (CHR '':'')), One (Chr (CHR '' '')),
          Group ''level'' (Plus Word), One (Chr (CHR '':'')), One (Chr (CHR '' '')),
          Group ''message'' (PlusLazy Dot),
          Opt (Cat [Plus Space, One (Chr (CHR ''['')),
                    Group ''code'' (Plus (AnyOf [Word, Chr (CHR ''-'')])),
                    One (Chr (CHR '']''))]),
          Eol]"

text \<open>
  \<open>int(x)\<close> for the value of a group: \<open>None\<close> is a \<open>TypeError\<close>; a non-empty string of
  decimal digits has its decimal value. (The signs, blanks and underscores that \<open>int\<close>
  also accepts cannot occur in a string matched by \<open>\\d+\<close>, and a string of more than
  4300 digits, which \<open>int\<close> refuses by default, is left out.)
\<close>

definition digit_value :: "unicode \<Rightarrow> char \<Rightarrow> int" where
  "digit_value u c =
     (if ascii c then int (of_char c) - 48
      else (case decimal u c of Some v \<Rightarrow> v | None \<Rightarrow> 0))"

definition int_of_group :: "unicode \<Rightarrow> string option \<Rightarrow> exn + int" where
  "int_of_group u x =
     (case x of
        None \<Rightarrow> Inl (Exception ''TypeError'')
      | Some s \<Rightarrow>
          if s \<noteq> [] \<and> list_all (isdigit u) s
          then Inr (foldl (\<lambda>n c. n * 10 + digit_value u c) 0 s)
          else Inl (Exception ''ValueError''))"

text \<open>\<open>_get_severity_for_code\<close>; the code is \<open>None\<close> when the group took no part.\<close>

definition get_severity_for_code :: "string option \<Rightarrow> Severity" where
  "get_severity_for_code error_code =
     (case error_code of
        None \<Rightarrow> MEDIUM
      | Some code \<Rightarrow> (case mypy_SEVERITY_MAP code of Some s \<Rightarrow> s | None \<Rightarrow> MEDIUM))"

text \<open>
  \<open>_convert_mypy_match\<close> on the \<open>groupdict()\<close> of a match. \<open>match_dict.get("code", "")\<close>
  is the value under the key, which is always present. A \<open>None\<close> where the models want a
  string is refused by their validation.
\<close>

definition convert_mypy_match :: "unicode \<Rightarrow> (string \<Rightarrow> string option) \<Rightarrow> exn + Finding" where
  "convert_mypy_match u match_dict =
     (let path = match_dict ''file''
      in case int_of_group u (match_dict ''line'') of Inl x \<Rightarrow> Inl x | Inr line_number \<Rightarrow>
         case int_of_group u (match_dict ''col'') of Inl x \<Rightarrow> Inl x | Inr column_number \<Rightarrow>
           (let level = match_dict ''level'';
                msg = match_dict ''message'';
                error_code = match_dict ''code'';
                severity =
                  (if level = Some ''error'' then get_severity_for_code error_code
                   else if level = Some ''warning'' then LOW
                   else if level = Some ''note'' then INFO
                   else MEDIUM)
            in case path of None \<Rightarrow> Inl (Exception ''ValidationError'') | Some f \<Rightarrow>
               case msg of None \<Rightarrow> Inl (Exception ''ValidationError'') | Some m \<Rightarrow>
                 Inr \<lparr>type = TYPE_ERROR, severity = severity,
                      location = \<lparr>file_path = f, line = Some line_number,
                                   column = Some column_number, end_line = None,
                                   function_name = None\<rparr>,
                      message = m,
                      rule_id = Some (case error_code of
                                        None \<Rightarrow> ''mypy''
                                      | Some code \<Rightarrow> if code \<noteq> [] then ''mypy:'' @ code
                                                     else ''mypy''),
                      fix_available = False\<rparr>))"

text \<open>\<open>_parse_mypy_output\<close>: one conversion per match of \<open>finditer\<close>, in order.\<close>

fun convert_matches :: "unicode \<Rightarrow> groups list \<Rightarrow> Finding list \<Rightarrow> exn + Finding list" where
  "convert_matches u [] findings = Inr findings"
| "convert_matches u (g # rest) findings =
     (case convert_mypy_match u (group g) of
        Inl x \<Rightarrow> Inl x
      | Inr finding \<Rightarrow> convert_matches u rest (findings @ [finding]))"

definition parse_mypy_output :: "unicode \<Rightarrow> string \<Rightarrow> exn + Finding list" where
  "parse_mypy_output u output = convert_matches u (finditer u mypy_pattern output 0) []"


section \<open>Summary and recommendations (cli.py)\<close>

text \<open>
  The two count dictionaries of \<open>AnalysisSummary\<close> are kept as association lists in
  insertion order, one entry per key.
\<close>

record AnalysisSummary =
  total_files :: int
  python_files :: int
  total_findings :: int
  findings_by_severity :: "(Severity \<times> int) list"
  findings_by_type :: "(FindingType \<times> int) list"
  total_recommendations :: int

text \<open>
  \<open>counter[key] += 1\<close> on a \<open>collections.Counter\<close>: a missing key counts as 0 and is
  inserted, a present key keeps its place.
\<close>

fun counter_increment :: "'k \<Rightarrow> ('k \<times> int) list \<Rightarrow> ('k \<times> int) list" where
  "counter_increment key [] = [(key, 0 + 1)]"
| "counter_increment key ((k, v) # rest) =
     (if k = key then (k, v + 1) # rest else (k, v) # counter_increment key rest)"

text \<open>\<open>_generate_summary\<close>\<close>

definition generate_summary :: "Finding list \<Rightarrow> int \<Rightarrow> AnalysisSummary" where
  "generate_summary findings python_files_count =
    (let severity_counts = fold (\<lambda>finding counts. counter_increment (severity finding) counts)
                             findings [];
         type_counts = fold (\<lambda>finding counts. counter_increment (type finding) counts)
                         findings [];
         files_with_findings = set (map (\<lambda>f. file_path (location f)) findings)
     in \<lparr>total_files = (if files_with_findings \<noteq> {} then int (card files_with_findings)
                        else python_files_count),
         python_files = python_files_count,
         total_findings = len findings,
         findings_by_severity = severity_counts,
         findings_by_type = type_counts,
         total_recommendations = 0\<rparr>)"

text \<open>
  \<open>_generate_recommendations\<close>. \<open>git_metrics\<close> is \<open>None\<close> or a metrics object (which is
  truthy); a list is truthy when it is not empty. Each \<open>if\<close> appends to
  \<open>recommendations\<close>.
\<close>

definition generate_recommendations ::
  "Finding list \<Rightarrow> GitMetrics option \<Rightarrow> Recommendation list" where
  "generate_recommendations findings git_metrics =
    (let recommendations = [];
         critical_count = len (filter (\<lambda>f. severity f = CRITICAL) findings);
         high_count = len (filter (\<lambda>f. severity f = HIGH) findings);
         recommendations =
           (if critical_count > 0 then
              recommendations @
              [\<lparr>priority = URGENT,
                category = ''Critical Issues'',
                action = ''Fix '' @ str_int critical_count @ '' critical issue(s) immediately'',
                rationale =
                  ''Critical issues can cause runtime failures or security vulnerabilities'',
                impact = ''Prevents potential system failures and security breaches'',
                effort = Some (if critical_count > 10 then ''high'' else ''medium''),
                related_findings = []\<rparr>]
            else recommendations);
         recommendations =
           (if high_count > 5 then
              recommendations @
              [\<lparr>priority = PRIO_HIGH,
                category = ''High Severity Issues'',
                action = ''Address '' @ str_int high_count @ '' high-severity issues'',
                rationale =
                  ''High-severity issues indicate bugs or type errors that should be fixed'',
                impact = ''Improves code reliability and reduces bug risk'',
                effort = Some (if high_count > 20 then ''high'' else ''medium''),
                related_findings = []\<rparr>]
            else recommendations);
         complexity_issues = filter (\<lambda>f. type f = COMPLEXITY) findings;
         recommendations =
           (if len complexity_issues > 5 then
              recommendations @
              [\<lparr>priority = PRIO_MEDIUM,
                category = ''Code Complexity'',
                action = ''Refactor '' @ str_int (len complexity_issues) @ '' complex functions'',
                rationale =
                  ''High complexity makes code harder to understand, test, and maintain'',
                impact = ''Improves code maintainability and reduces bug introduction risk'',
                effort = Some ''high'',
                related_findings = []\<rparr>]
            else recommendations);
         type_errors = filter (\<lambda>f. type f = TYPE_ERROR) findings;
         recommendations =
           (if len type_errors > 10 then
              recommendations @
              [\<lparr>priority = PRIO_HIGH,
                category = ''Type Safety'',
                action = ''Improve type annotations and fix type errors'',
                rationale =
                  ''Type safety helps catch bugs early and improves code documentation'',
                impact = ''Reduces runtime errors and improves IDE support'',
                effort = Some ''medium'',
                related_findings = []\<rparr>]
            else recommendations);
         recommendations =
           (case git_metrics of
              None \<Rightarrow> recommendations
            | Some m \<Rightarrow>
                if hot_spots m \<noteq> [] then
                  recommendations @
                  [\<lparr>priority = PRIO_MEDIUM,
                    category = ''Code Hot Spots'',
                    action = ''Review and potentially refactor '' @ str_int (len (hot_spots m))
                               @ '' frequently-changed files'',
                    rationale = ''Files that change frequently may indicate design issues or ''
                                  @ ''insufficient abstraction'',
                    impact = ''Reduces future change frequency and improves design'',
                    effort = Some ''high'',
                    related_findings = []\<rparr>]
                else recommendations);
         recommendations =
           (case git_metrics of
              None \<Rightarrow> recommendations
            | Some m \<Rightarrow>
                if large_files m \<noteq> [] then
                  recommendations @
                  [\<lparr>priority = PRIO_LOW,
                    category = ''Large Files'',
                    action = ''Consider splitting '' @ str_int (len (large_files m))
                               @ '' large files'',
                    rationale =
                      ''Large files are harder to navigate and may indicate low cohesion'',
                    impact = ''Improves code organization and maintainability'',
                    effort = Some ''medium'',
                    related_findings = []\<rparr>]
                else recommendations);
         fixable_count = len (filter fix_available findings);
         recommendations =
           (if fixable_count > 0 then
              recommendations @
              [\<lparr>priority = PRIO_LOW,
                category = ''Quick Wins'',
                action = ''Run auto-fix for '' @ str_int fixable_count @ '' fixable issues'',
                rationale = ''Many linting issues can be automatically fixed'',
                impact = ''Quick improvement in code quality with minimal effort'',
                effort = Some ''low'',
                related_findings = []\<rparr>]
            else recommendations)
     in recommendations)"

section \<open>The complexity metric as the specification words it\<close>

text \<open>
  Base 1, plus 1 for every \<open>if\<close>, \<open>for\<close>, \<open>while\<close>, exception handler and \<open>with\<close>
  node, plus (number of operands - 1) for every boolean operation, over all nodes of
  the subtree.
\<close>

definition spec_complexity :: "ast \<Rightarrow> int" where
  "spec_complexity node =
     (let nodes = walk node
      in 1 + len (filter is_If nodes) + len (filter is_For nodes) + len (filter is_While nodes)
           + len (filter is_ExceptHandler nodes) + len (filter is_With nodes)
           + sum_list (map (\<lambda>b. len (values_list b) - 1) (filter is_BoolOp nodes)))"

text \<open>What a single node adds to the counter.\<close>

fun increment :: "ast \<Rightarrow> int" where
  "increment (If cs) = 1"
| "increment (For cs) = 1"
| "increment (While cs) = 1"
| "increment (ExceptHandler cs) = 1"
| "increment (With cs) = 1"
| "increment (BoolOp operator vs) = len vs - 1"
| "increment node = 0"

section \<open>The recommendation rules as the specification lists them\<close>

text \<open>The statistics the rules look at.\<close>

definition count_severity :: "Severity \<Rightarrow> Finding list \<Rightarrow> int" where
  "count_severity s findings = len (filter (\<lambda>f. severity f = s) findings)"

definition count_type :: "FindingType \<Rightarrow> Finding list \<Rightarrow> int" where
  "count_type t findings = len (filter (\<lambda>f. type f = t) findings)"

definition count_fixable :: "Finding list \<Rightarrow> int" where
  "count_fixable findings = len (filter fix_available findings)"

text \<open>What the claim compares of a recommendation: priority, category and effort.\<close>

definition rule_output :: "Recommendation \<Rightarrow> Priority \<times> string \<times> string option" where
  "rule_output r = (priority r, category r, effort r)"

text \<open>
  The seven rules in emission order, each a threshold check on a statistic of its own:
  critical count, high count, number of complexity findings, number of type errors, the
  repository metrics (twice) and the number of fixable findings.
\<close>

definition spec_rules ::
  "int \<Rightarrow> int \<Rightarrow> int \<Rightarrow> int \<Rightarrow> GitMetrics option \<Rightarrow> int
     \<Rightarrow> (Priority \<times> string \<times> string option) list" where
  "spec_rules critical high complex type_errors git_metrics fixable =
     (if critical > 0
      then [(URGENT, ''Critical Issues'', Some (if critical > 10 then ''high'' else ''medium''))]
      else [])
   @ (if high > 5
      then [(PRIO_HIGH, ''High Severity Issues'', Some (if high > 20 then ''high'' else ''medium''))]
      else [])
   @ (if complex > 5 then [(PRIO_MEDIUM, ''Code Complexity'', Some ''high'')] else [])
   @ (if type_errors > 10 then [(PRIO_HIGH, ''Type Safety'', Some ''medium'')] else [])
   @ (case git_metrics of
        None \<Rightarrow> []
      | Some m \<Rightarrow> if hot_spots m \<noteq> [] then [(PRIO_MEDIUM, ''Code Hot Spots'', Some ''high'')]
                  else [])
   @ (case git_metrics of
        None \<Rightarrow> []
      | Some m \<Rightarrow> if large_files m \<noteq> [] then [(PRIO_LOW, ''Large Files'', Some ''medium'')]
                  else [])
   @ (if fixable > 0 then [(PRIO_LOW, ''Quick Wins'', Some ''low'')] else [])"

section \<open>The diagnostic parser as the specification words it\<close>

text \<open>\<open>output.split("\n")\<close>: the lines of the output.\<close>

fun split_lines_loop :: "string \<Rightarrow> string \<Rightarrow> string list" where
  "split_lines_loop current [] = [current]"
| "split_lines_loop current (c # rest) =
     (if c = newline then current # split_lines_loop [] rest
      else split_lines_loop (current @ [c]) rest)"

definition split_lines :: "string \<Rightarrow> string list" where
  "split_lines output = split_lines_loop [] output"

text \<open>A line matches the pattern when the pattern matches the line taken alone.\<close>

definition match_line :: "unicode \<Rightarrow> string \<Rightarrow> groups option" where
  "match_line u l = match_here u mypy_pattern l 0 [] (\<lambda>j g. Some g)"

text \<open>One finding per line that matches; the other lines contribute nothing.\<close>

definition spec_parse_mypy_output :: "unicode \<Rightarrow> string \<Rightarrow> exn + Finding list" where
  "spec_parse_mypy_output u output =
     convert_matches u
       (concat (map (\<lambda>l. case match_line u l of None \<Rightarrow> [] | Some g \<Rightarrow> [g]) (split_lines output)))
       []"

section \<open>Predicates used in the proofs\<close>




section \<open>Example inputs\<close>

text \<open>The classification in which no character outside ASCII belongs to a class.\<close>

definition ascii_only :: unicode where
  "ascii_only =
     \<lparr>alphabetic = (\<lambda>c. False), alphanumeric = (\<lambda>c. False),
      decimal = (\<lambda>c. None), whitespace = (\<lambda>c. False)\<rparr>"

text \<open>\<^verbatim>\<open>def f(x): if x: for i in x: pass\<close>, as a tree.\<close>

definition example_function :: ast where
  "example_function =
     FunctionDef ''f'' 1 0 (Some 4) (arguments [] [Other []] [])
       [If [Other [], For [Other [], Other [], Other []]]] []"

text \<open>
  An \<open>async def\<close> with nine parameters, nested branches and 80 lines, which would be
  flagged three times if it were a plain \<open>def\<close>.
\<close>

definition example_async_function :: ast where
  "example_async_function =
     AsyncFunctionDef ''fetch'' 1 0 (Some 80) (arguments []
         [Other [], Other [], Other [], Other [], Other [], Other [], Other [], Other [], Other []] [])
       [If [Other [], If [Other [], While [Other []]]]] []"

text \<open>Three findings in two files.\<close>

definition example_findings :: "Finding list" where
  "example_findings =
     [\<lparr>type = BUG, severity = CRITICAL, location = Location_file_only ''a.py'',
       message = ''Syntax error: invalid syntax'', rule_id = Some ''AST001'',
       fix_available = False\<rparr>,
      \<lparr>type = STYLE, severity = LOW, location = Location_file_only ''a.py'',
       message = ''Import block is un-sorted'', rule_id = Some ''I001'',
       fix_available = True\<rparr>,
      \<lparr>type = STYLE, severity = LOW, location = Location_file_only ''b.py'',
       message = ''Import block is un-sorted'', rule_id = Some ''I001'',
       fix_available = True\<rparr>]"

text \<open>
  A type-checker diagnostic of medium severity, and a critical one (error code
  \<open>syntax\<close>); both have type \<open>type_error\<close>.
\<close>

definition example_type_error :: Finding where
  "example_type_error =
     \<lparr>type = TYPE_ERROR, severity = MEDIUM,
      location = \<lparr>file_path = ''a.py'', line = Some 3, column = Some 5, end_line = None,
                   function_name = None\<rparr>,
      message = ''Incompatible types in assignment'', rule_id = Some ''mypy:assignment'',
      fix_available = False\<rparr>"

definition example_critical :: Finding where
  "example_critical =
     \<lparr>type = TYPE_ERROR, severity = CRITICAL,
      location = \<lparr>file_path = ''b.py'', line = Some 1, column = Some 1, end_line = None,
                   function_name = None\<rparr>,
      message = ''invalid syntax'', rule_id = Some ''mypy:syntax'',
      fix_available = False\<rparr>"

text \<open>A critical finding that touches no other statistic.\<close>

definition example_syntax_error :: Finding where
  "example_syntax_error =
     \<lparr>type = BUG, severity = CRITICAL,
      location = \<lparr>file_path = ''b.py'', line = Some 1, column = Some 1, end_line = None,
                   function_name = None\<rparr>,
      message = ''Syntax error: invalid syntax'', rule_id = Some ''AST001'',
      fix_available = False\<rparr>"

text \<open>
  Two lines of output, neither of which has the form of a diagnostic (the second has no
  file name); and a diagnostic without a code, followed by a line in brackets.
\<close>

definition example_output :: string where
  "example_output = ''foo'' @ [newline] @ '':1:1: error: x''"

definition example_output_bracket :: string where
  "example_output_bracket = ''a.py:1:1: error: x'' @ [newline] @ ''[attr-defined]''"



section \<open>Properties\<close>

subsection \<open>Linter severity lookup\<close>

lemma rule_prefix_loop_takeWhile:
  "rule_prefix_loop u prefix code = prefix @ takeWhile (isalpha u) code"
  by (induction code arbitrary: prefix) simp_all

lemma isalpha_examples:
  "\<not> isalpha u (CHR ''4'')" "\<not> isalpha u (CHR ''2'')" "isalpha u (CHR ''C'')"
  "isalpha u (CHR ''T'')"
  by (simp_all add: isalpha_def ascii_def less_eq_char_def)

lemma takeWhile_all: "\<forall>c \<in> set (takeWhile P xs). P c"
  by (auto dest: set_takeWhileD)

lemma severity_lookup_key:
  "get_severity_for_rule u code =
     (case ruff_SEVERITY_MAP (takeWhile (isalpha u) code) of Some s \<Rightarrow> s | None \<Rightarrow> MEDIUM)"
  by (simp add: get_severity_for_rule_def rule_prefix_loop_takeWhile)

lemma severity_lookup_non_ascii_letter:
  "alphabetic u (CHR 0xE9) \<Longrightarrow>
   rule_prefix_loop u [] (''F'' @ [CHR 0xE9] @ ''1'') = ''F'' @ [CHR 0xE9]
   \<and> get_severity_for_rule u (''F'' @ [CHR 0xE9] @ ''1'') = MEDIUM"
  by (simp add: get_severity_for_rule_def isalpha_def ascii_def less_eq_char_def
      ruff_SEVERITY_MAP_def)

text \<open>
  C10. The severity of a rule code is the entry of the severity table at the longest
  leading run of alphabetic characters of the code, and medium when the table has no
  such entry. That key is never \<open>C4\<close> or \<open>T20\<close>, although the table lists both with
  severity low, and every rule code that starts with \<open>C4\<close> or \<open>T20\<close> gets the fallback
  severity medium. This holds whatever the alphabetic characters outside ASCII are.
\<close>

theorem severity_lookup_ignores_keys_with_digits:
  "get_severity_for_rule u code =
     (case ruff_SEVERITY_MAP (takeWhile (isalpha u) code) of Some s \<Rightarrow> s | None \<Rightarrow> MEDIUM)
   \<and> rule_prefix_loop u [] code = takeWhile (isalpha u) code
   \<and> rule_prefix_loop u [] code \<noteq> ''C4'' \<and> rule_prefix_loop u [] code \<noteq> ''T20''
   \<and> ruff_SEVERITY_MAP ''C4'' = Some LOW \<and> ruff_SEVERITY_MAP ''T20'' = Some LOW
   \<and> get_severity_for_rule u (''C4'' @ rest) = MEDIUM
   \<and> get_severity_for_rule u (''T20'' @ rest) = MEDIUM"
proof -
  have k: "get_severity_for_rule u code =
     (case ruff_SEVERITY_MAP (takeWhile (isalpha u) code) of Some s \<Rightarrow> s | None \<Rightarrow> MEDIUM)"
    by (rule severity_lookup_key)
  have p: "rule_prefix_loop u [] code = takeWhile (isalpha u) code"
    by (simp add: rule_prefix_loop_takeWhile)
  have a: "\<forall>c \<in> set (takeWhile (isalpha u) code). isalpha u c"
    by (rule takeWhile_all)
  have n1: "takeWhile (isalpha u) code \<noteq> ''C4''"
    using a isalpha_examples(1) [of u] by (metis list.set_intros(1,2))
  have n2: "takeWhile (isalpha u) code \<noteq> ''T20''"
    using a isalpha_examples(2) [of u] by (metis list.set_intros(1,2))
  have m: "ruff_SEVERITY_MAP ''C4'' = Some LOW" "ruff_SEVERITY_MAP ''T20'' = Some LOW"
    "ruff_SEVERITY_MAP ''C'' = None" "ruff_SEVERITY_MAP ''T'' = None"
    by (simp_all add: ruff_SEVERITY_MAP_def)
  have c4: "get_severity_for_rule u (''C4'' @ rest) = MEDIUM"
    by (simp add: severity_lookup_key isalpha_examples m)
  have t20: "get_severity_for_rule u (''T20'' @ rest) = MEDIUM"
    by (simp add: severity_lookup_key isalpha_examples m)
  show ?thesis using k p n1 n2 m c4 t20 by simp
qed

lemma prefix_examples:
  "takeWhile (isalpha ascii_only) ''F401'' = ''F''"
  "takeWhile (isalpha ascii_only) ''W605'' = ''W''"
  "takeWhile (isalpha ascii_only) ''UP006'' = ''UP''"
  by (simp_all add: isalpha_def ascii_def less_eq_char_def)

theorem severity_lookup_ignores_keys_with_digits_witness:
  "get_severity_for_rule ascii_only ''C408'' = MEDIUM
   \<and> get_severity_for_rule ascii_only ''T201'' = MEDIUM
   \<and> get_severity_for_rule ascii_only ''F401'' = HIGH
   \<and> get_severity_for_rule ascii_only ''W605'' = LOW
   \<and> get_severity_for_rule ascii_only ''UP006'' = MEDIUM"
proof -
  have c4: "get_severity_for_rule ascii_only ''C408'' = MEDIUM"
    using severity_lookup_ignores_keys_with_digits [of ascii_only "[]" "''08''"] by simp
  have t20: "get_severity_for_rule ascii_only ''T201'' = MEDIUM"
    using severity_lookup_ignores_keys_with_digits [of ascii_only "[]" "''1''"] by simp
  have "get_severity_for_rule ascii_only ''F401'' =
          (case ruff_SEVERITY_MAP (takeWhile (isalpha ascii_only) ''F401'') of
             Some s \<Rightarrow> s | None \<Rightarrow> MEDIUM)"
    by (rule severity_lookup_ignores_keys_with_digits [THEN conjunct1])
  then have f: "get_severity_for_rule ascii_only ''F401'' = HIGH"
    unfolding prefix_examples by (simp add: ruff_SEVERITY_MAP_def)
  have "get_severity_for_rule ascii_only ''W605'' =
          (case ruff_SEVERITY_MAP (takeWhile (isalpha ascii_only) ''W605'') of
             Some s \<Rightarrow> s | None \<Rightarrow> MEDIUM)"
    by (rule severity_lookup_ignores_keys_with_digits [THEN conjunct1])
  then have w: "get_severity_for_rule ascii_only ''W605'' = LOW"
    unfolding prefix_examples by (simp add: ruff_SEVERITY_MAP_def)
  have "get_severity_for_rule ascii_only ''UP006'' =
          (case ruff_SEVERITY_MAP (takeWhile (isalpha ascii_only) ''UP006'') of
             Some s \<Rightarrow> s | None \<Rightarrow> MEDIUM)"
    by (rule severity_lookup_ignores_keys_with_digits [THEN conjunct1])
  then have up: "get_severity_for_rule ascii_only ''UP006'' = MEDIUM"
    unfolding prefix_examples by (simp add: ruff_SEVERITY_MAP_def)
  show ?thesis using c4 t20 f w up by simp
qed

subsection \<open>Cyclomatic complexity\<close>

lemma fold_additive:
  fixes f :: "'a \<Rightarrow> int \<Rightarrow> int"
  assumes "\<And>x c. x \<in> set xs \<Longrightarrow> f x c = c + g x"
  shows "fold f xs c = c + sum_list (map g xs)"
  using assms by (induction xs arbitrary: c) simp_all

lemma visit_increment:
  "visit node c = c + increment node + sum_list (map (\<lambda>x. visit x 0) (iter_child_nodes node))"
proof (induction "size node" arbitrary: node c rule: less_induct)
  case less
  have ch: "visit x d = d + visit x 0" if "x \<in> set (iter_child_nodes node)" for x d
  proof -
    have "size x < size node" using that by (rule child_node_size)
    then show ?thesis using less [of x d] less [of x 0] by linarith
  qed
  have "fold visit (iter_child_nodes node) d
          = d + sum_list (map (\<lambda>x. visit x 0) (iter_child_nodes node))" for d
    using ch by (rule fold_additive)
  then have g: "generic_visit node d
          = d + sum_list (map (\<lambda>x. visit x 0) (iter_child_nodes node))" for d
    by simp
  have "visit node c = generic_visit node (c + increment node)"
    by (cases node) (simp_all add: len_def del: generic_visit.simps)
  then show ?case by (simp only: g)
qed

lemma visit_additive: "visit node c = c + visit node 0"
  using visit_increment [of node c] visit_increment [of node 0] by linarith

lemma walk_loop_sum:
  "sum_list (map increment (walk_loop todo)) = sum_list (map (\<lambda>x. visit x 0) todo)"
proof (induction todo rule: walk_loop.induct)
  case 1
  show ?case by simp
next
  case (2 node todo)
  show ?case using 2 visit_increment [of node 0] by simp
qed

lemma complexity_sum: "function_complexity node = 1 + sum_list (map increment (walk node))"
  using visit_additive [of node 1] walk_loop_sum [of "[node]"]
  by (simp add: function_complexity_def walk_def del: walk_loop.simps)


lemma sum_increment_spec:
  "sum_list (map increment xs) =
     len (filter is_If xs) + len (filter is_For xs) + len (filter is_While xs)
     + len (filter is_ExceptHandler xs) + len (filter is_With xs)
     + sum_list (map (\<lambda>b. len (values_list b) - 1) (filter is_BoolOp xs))"
proof (induction xs)
  case Nil
  show ?case by (simp add: len_def)
next
  case (Cons n xs)
  show ?case using Cons by (cases n) (simp_all add: len_def)
qed

text \<open>
  C1. The complexity computed for a function definition (indeed for any node) is 1, plus 1
  for each \<open>if\<close>, \<open>for\<close>, \<open>while\<close>, exception handler and \<open>with\<close> node, plus
  (number of operands - 1) for each boolean operation, counted over every node of the
  subtree. So a subtree with one conditional, one loop and nothing else that counts has
  complexity 3, and a boolean operation with four operands adds 3.
\<close>

theorem complexity_formula:
  "function_complexity node = spec_complexity node
   \<and> (len (filter is_If (walk node)) = 1
        \<and> len (filter is_For (walk node)) + len (filter is_While (walk node)) = 1
        \<and> filter is_ExceptHandler (walk node) = [] \<and> filter is_With (walk node) = []
        \<and> filter is_BoolOp (walk node) = []
       \<longrightarrow> function_complexity node = 3)
   \<and> visit (BoolOp operator [a, b, c, d]) k = generic_visit (BoolOp operator [a, b, c, d]) (k + 3)"
proof -
  have eq: "function_complexity node = spec_complexity node"
    by (simp add: complexity_sum sum_increment_spec spec_complexity_def Let_def)
  have three: "function_complexity node = 3"
    if "len (filter is_If (walk node)) = 1
        \<and> len (filter is_For (walk node)) + len (filter is_While (walk node)) = 1
        \<and> filter is_ExceptHandler (walk node) = [] \<and> filter is_With (walk node) = []
        \<and> filter is_BoolOp (walk node) = []"
    using that by (simp add: eq spec_complexity_def Let_def len_def)
  have four: "visit (BoolOp operator [a, b, c, d]) k = generic_visit (BoolOp operator [a, b, c, d]) (k + 3)"
    by (simp del: generic_visit.simps)
  show ?thesis using eq three four by blast
qed

lemma walk_example:
  "walk example_function =
     [example_function, arguments [] [Other []] [],
      If [Other [], For [Other [], Other [], Other []]], Other [], Other [],
      For [Other [], Other [], Other []], Other [], Other [], Other []]"
  by (simp add: walk_def example_function_def)

theorem complexity_formula_witness:
  "function_complexity example_function = 3 \<and> spec_complexity example_function = 3"
proof -
  have h: "len (filter is_If (walk example_function)) = 1
        \<and> len (filter is_For (walk example_function))
            + len (filter is_While (walk example_function)) = 1
        \<and> filter is_ExceptHandler (walk example_function) = []
        \<and> filter is_With (walk example_function) = []
        \<and> filter is_BoolOp (walk example_function) = []"
    unfolding walk_example by (simp add: example_function_def len_def)
  have "function_complexity example_function = 3"
    using complexity_formula [of example_function] h by blast
  moreover have "function_complexity example_function = spec_complexity example_function"
    using complexity_formula [of example_function] by blast
  ultimately show ?thesis by simp
qed

subsection \<open>Parse failures\<close>

lemma or_zero_eq: "or_zero x = (case x of None \<Rightarrow> 0 | Some v \<Rightarrow> v)"
  by (simp add: or_zero_def split: option.splits)

text \<open>
  C2. \<open>analyze_file\<close> always returns a list of findings. When reading or parsing raises
  a syntax error the list is exactly one finding: type bug, severity critical, rule
  \<open>AST001\<close>, located at the reported line and column (0 where the parser gives none),
  with the parser's message inside its message. Any other exception gives exactly one
  finding: type bug, severity high, rule \<open>AST000\<close>, located by the file alone (no
  line).
\<close>

theorem analyze_file_never_raises:
  "(\<exists>findings. analyze_file self path parsed = Inr findings)
   \<and> analyze_file self path (Inl (SyntaxError l off msg)) =
       Inr [\<lparr>type = BUG, severity = CRITICAL,
             location = \<lparr>file_path = path,
                          line = Some (case l of None \<Rightarrow> 0 | Some v \<Rightarrow> v),
                          column = Some (case off of None \<Rightarrow> 0 | Some v \<Rightarrow> v),
                          end_line = None, function_name = None\<rparr>,
             message = ''Syntax error: '' @ msg,
             rule_id = Some ''AST001'', fix_available = False\<rparr>]
   \<and> (\<not> is_SyntaxError e \<longrightarrow>
       analyze_file self path (Inl e) =
       Inr [\<lparr>type = BUG, severity = HIGH,
             location = \<lparr>file_path = path, line = None, column = None,
                          end_line = None, function_name = None\<rparr>,
             message = ''Failed to analyze file: '' @ str_exn e,
             rule_id = Some ''AST000'', fix_available = False\<rparr>])"
proof -
  have total: "\<exists>findings. analyze_file self path parsed = Inr findings"
  proof (cases parsed)
    case (Inl e)
    then show ?thesis
      by (cases e) (simp_all add: analyze_file_def analyze_file_try_def)
  next
    case (Inr tree)
    then show ?thesis
      by (simp add: analyze_file_def analyze_file_try_def)
  qed
  have syn: "analyze_file self path (Inl (SyntaxError l off msg)) =
       Inr [\<lparr>type = BUG, severity = CRITICAL,
             location = \<lparr>file_path = path,
                          line = Some (case l of None \<Rightarrow> 0 | Some v \<Rightarrow> v),
                          column = Some (case off of None \<Rightarrow> 0 | Some v \<Rightarrow> v),
                          end_line = None, function_name = None\<rparr>,
             message = ''Syntax error: '' @ msg,
             rule_id = Some ''AST001'', fix_available = False\<rparr>]"
    by (simp add: analyze_file_def analyze_file_try_def or_zero_eq)
  have other: "analyze_file self path (Inl e) =
       Inr [\<lparr>type = BUG, severity = HIGH,
             location = \<lparr>file_path = path, line = None, column = None,
                          end_line = None, function_name = None\<rparr>,
             message = ''Failed to analyze file: '' @ str_exn e,
             rule_id = Some ''AST000'', fix_available = False\<rparr>]"
    if "\<not> is_SyntaxError e"
    using that
    by (cases e) (simp_all add: analyze_file_def analyze_file_try_def Location_file_only_def)
  show ?thesis using total syn other by blast
qed

theorem analyze_file_never_raises_witness:
  "analyze_file ASTAnalyzer_default ''a.py'' (Inl (SyntaxError (Some 3) None ''invalid syntax'')) =
     Inr [\<lparr>type = BUG, severity = CRITICAL,
             location = \<lparr>file_path = ''a.py'', line = Some 3, column = Some 0,
                          end_line = None, function_name = None\<rparr>,
             message = ''Syntax error: invalid syntax'',
             rule_id = Some ''AST001'', fix_available = False\<rparr>]
   \<and> \<not> is_SyntaxError (Exception ''Permission denied'')
   \<and> analyze_file ASTAnalyzer_default ''a.py'' (Inl (Exception ''Permission denied'')) =
     Inr [\<lparr>type = BUG, severity = HIGH,
             location = \<lparr>file_path = ''a.py'', line = None, column = None,
                          end_line = None, function_name = None\<rparr>,
             message = ''Failed to analyze file: Permission denied'',
             rule_id = Some ''AST000'', fix_available = False\<rparr>]"
  using analyze_file_never_raises
    [of ASTAnalyzer_default "''a.py''" "Inr (Other [])" "Some 3" None "''invalid syntax''"
        "Exception ''Permission denied''"]
  by simp

subsection \<open>The complexity finding\<close>

lemma analyze_function_AST100:
  "filter (\<lambda>f. rule_id f = Some ''AST100'') (analyze_function self node path) =
     (if function_complexity node > complexity_threshold self then
        [\<lparr>type = COMPLEXITY,
          severity = (if function_complexity node > complexity_threshold self * 2
                      then HIGH else MEDIUM),
          location = \<lparr>file_path = path, line = Some (lineno node),
                       column = Some (col_offset node), end_line = None,
                       function_name = Some (name node)\<rparr>,
          message = ''Function '' @ quote @ name node @ quote
                      @ '' has high cyclomatic complexity (''
                      @ str_int (function_complexity node) @ '')'',
          rule_id = Some ''AST100'', fix_available = False\<rparr>]
      else [])"
  by (simp add: analyze_function_def Let_def split: option.splits)

lemma analyze_function_COMPLEXITY:
  "filter (\<lambda>f. type f = COMPLEXITY) (analyze_function self node path) =
   filter (\<lambda>f. rule_id f = Some ''AST100'') (analyze_function self node path)"
  by (simp add: analyze_function_def Let_def split: option.splits)


text \<open>
  C4. \<open>_analyze_function\<close> emits a finding with rule \<open>AST100\<close> exactly when the
  computed complexity is strictly greater than the threshold (10 by default). It is the
  only finding of type complexity; its severity is high when the complexity is strictly
  greater than twice the threshold and medium otherwise; its message contains the
  function's name and the complexity in decimal.
\<close>

theorem complexity_finding_iff_over_threshold:
  "((\<exists>f \<in> set (analyze_function self node path). rule_id f = Some ''AST100'')
      \<longleftrightarrow> function_complexity node > complexity_threshold self)
   \<and> filter (\<lambda>f. type f = COMPLEXITY) (analyze_function self node path) =
     (if function_complexity node > complexity_threshold self then
        [\<lparr>type = COMPLEXITY,
          severity = (if function_complexity node > complexity_threshold self * 2
                      then HIGH else MEDIUM),
          location = \<lparr>file_path = path, line = Some (lineno node),
                       column = Some (col_offset node), end_line = None,
                       function_name = Some (name node)\<rparr>,
          message = ''Function '' @ quote @ name node @ quote
                      @ '' has high cyclomatic complexity (''
                      @ str_int (function_complexity node) @ '')'',
          rule_id = Some ''AST100'', fix_available = False\<rparr>]
      else [])
   \<and> filter (\<lambda>f. rule_id f = Some ''AST100'') (analyze_function self node path) =
       filter (\<lambda>f. type f = COMPLEXITY) (analyze_function self node path)
   \<and> complexity_threshold ASTAnalyzer_default = 10"
proof -
  let ?hits = "filter (\<lambda>f. rule_id f = Some ''AST100'') (analyze_function self node path)"
  have "(\<exists>f \<in> set (analyze_function self node path). rule_id f = Some ''AST100'')
          \<longleftrightarrow> ?hits \<noteq> []"
    by (simp add: filter_empty_conv)
  also have "\<dots> \<longleftrightarrow> function_complexity node > complexity_threshold self"
    by (simp only: analyze_function_AST100) simp
  finally have iff: "(\<exists>f \<in> set (analyze_function self node path). rule_id f = Some ''AST100'')
          \<longleftrightarrow> function_complexity node > complexity_threshold self" .
  show ?thesis
    using iff analyze_function_AST100 [of self node path]
      analyze_function_COMPLEXITY [of self node path]
    by (simp add: ASTAnalyzer_default_def)
qed

lemma str_int_3: "str_int 3 = ''3''"
  by (simp add: str_int_def digit_char_def)

theorem complexity_finding_iff_over_threshold_witness:
  "filter (\<lambda>f. type f = COMPLEXITY)
     (analyze_function \<lparr>complexity_threshold = 2\<rparr> example_function ''a.py'') =
     [\<lparr>type = COMPLEXITY, severity = MEDIUM,
       location = \<lparr>file_path = ''a.py'', line = Some 1, column = Some 0, end_line = None,
                    function_name = Some ''f''\<rparr>,
       message = ''Function '' @ quote @ ''f'' @ quote @ '' has high cyclomatic complexity (3)'',
       rule_id = Some ''AST100'', fix_available = False\<rparr>]
   \<and> (\<exists>f \<in> set (analyze_function \<lparr>complexity_threshold = 2\<rparr> example_function ''a.py'').
         rule_id f = Some ''AST100'')
   \<and> \<not> (\<exists>f \<in> set (analyze_function \<lparr>complexity_threshold = 3\<rparr> example_function ''a.py'').
         rule_id f = Some ''AST100'')"
proof -
  have c: "function_complexity example_function = 3"
    by (simp add: function_complexity_def example_function_def)
  have n: "name example_function = ''f''" "lineno example_function = 1"
    "col_offset example_function = 0"
    by (simp_all add: example_function_def)
  show ?thesis
    using complexity_finding_iff_over_threshold [of "\<lparr>complexity_threshold = 2\<rparr>" example_function "''a.py''"]
      complexity_finding_iff_over_threshold [of "\<lparr>complexity_threshold = 3\<rparr>" example_function "''a.py''"]
    by (simp add: c n str_int_3)
qed


subsection \<open>Asynchronous definitions\<close>

lemma fold_analyze_tree_step:
  "fold (analyze_tree_step self path) nodes findings =
     findings @ concat (map (node_findings self path) nodes)"
  by (induction nodes arbitrary: findings)
     (simp_all add: analyze_tree_step_def node_findings_def)

lemma concat_map_skip:
  "(\<And>x. \<not> P x \<Longrightarrow> f x = []) \<Longrightarrow> concat (map f (filter P xs)) = concat (map f xs)"
  by (induction xs) simp_all

lemma methods_without_async:
  "filter is_FunctionDef (filter (\<lambda>m. \<not> is_AsyncFunctionDef m) ms) = filter is_FunctionDef ms"
proof (induction ms)
  case Nil
  show ?case by simp
next
  case (Cons m ms)
  then show ?case by (cases m) simp_all
qed

text \<open>
  C9. The findings of a tree come only from the nodes of the walk that are not
  \<open>async def\<close> nodes: such a node contributes nothing (no complexity, argument-count or
  length finding), and \<open>_analyze_class\<close> gives the same result when the \<open>async def\<close>
  members are removed from the class body, so they are not counted as methods.
\<close>

theorem async_definitions_are_skipped:
  "analyze_tree self tree path =
     concat (map (node_findings self path) (filter (\<lambda>n. \<not> is_AsyncFunctionDef n) (walk tree)))
   \<and> node_findings self path (AsyncFunctionDef n l c e a b t) = []
   \<and> analyze_tree_step self path (AsyncFunctionDef n l c e a b t) findings = findings
   \<and> analyze_class self (ClassDef cn cl cc bs ms tr) path =
       analyze_class self (ClassDef cn cl cc bs (filter (\<lambda>m. \<not> is_AsyncFunctionDef m) ms) tr) path"
proof -
  have skip: "node_findings self path x = []" if "\<not> \<not> is_AsyncFunctionDef x" for x
    using that by (cases x) (simp_all add: node_findings_def)
  have "analyze_tree self tree path = concat (map (node_findings self path) (walk tree))"
    by (simp add: analyze_tree_def fold_analyze_tree_step)
  also have "\<dots> = concat (map (node_findings self path)
                        (filter (\<lambda>n. \<not> is_AsyncFunctionDef n) (walk tree)))"
    using skip by (rule concat_map_skip [symmetric])
  finally have tree: "analyze_tree self tree path =
     concat (map (node_findings self path) (filter (\<lambda>n. \<not> is_AsyncFunctionDef n) (walk tree)))" .
  have none: "node_findings self path (AsyncFunctionDef n l c e a b t) = []"
    by (simp add: node_findings_def)
  have step: "analyze_tree_step self path (AsyncFunctionDef n l c e a b t) findings = findings"
    by (simp add: analyze_tree_step_def)
  have cls: "analyze_class self (ClassDef cn cl cc bs ms tr) path =
       analyze_class self (ClassDef cn cl cc bs (filter (\<lambda>m. \<not> is_AsyncFunctionDef m) ms) tr) path"
    by (simp add: analyze_class_def Let_def methods_without_async del: filter_filter)
  show ?thesis using tree none step cls by simp
qed


theorem async_definitions_are_skipped_witness:
  "analyze_tree \<lparr>complexity_threshold = 1\<rparr> (Other [example_async_function]) ''a.py'' = []
   \<and> length (analyze_function \<lparr>complexity_threshold = 1\<rparr> example_async_function ''a.py'') = 3
   \<and> analyze_class \<lparr>complexity_threshold = 1\<rparr>
         (ClassDef ''Client'' 1 0 [] (replicate 21 example_async_function) []) ''a.py'' = []"
proof -
  let ?self = "\<lparr>complexity_threshold = 1\<rparr>"
  have a: "is_AsyncFunctionDef example_async_function"
    by (simp add: example_async_function_def)
  have w: "filter (\<lambda>n. \<not> is_AsyncFunctionDef n) (walk (Other [example_async_function])) =
             filter (\<lambda>n. \<not> is_AsyncFunctionDef n) (Other [example_async_function]
               # walk_loop (iter_child_nodes example_async_function))"
    using a by (simp add: walk_def)
  have t: "analyze_tree ?self (Other [example_async_function]) ''a.py'' = []"
    using async_definitions_are_skipped [of ?self "Other [example_async_function]" "''a.py''"]
    unfolding w by (simp add: example_async_function_def node_findings_def)
  have f: "length (analyze_function ?self example_async_function ''a.py'') = 3"
    by (simp add: analyze_function_def example_async_function_def function_complexity_def
        len_def Let_def)
  have c: "analyze_class ?self
         (ClassDef ''Client'' 1 0 [] (replicate 21 example_async_function) []) ''a.py'' = []"
    using async_definitions_are_skipped [of ?self "Other [example_async_function]" "''a.py''"
        "''f''" 0 0 None "Other []" "[]" "[]" "[]"
        "''Client''" 1 0 "[]" "replicate 21 example_async_function" "[]"] a
    by (simp add: analyze_class_def len_def)
  show ?thesis using t f c by simp
qed

subsection \<open>Summary\<close>

lemma counter_increment_sum:
  "sum_list (map snd (counter_increment key counts)) = sum_list (map snd counts) + 1"
  by (induction counts) auto

lemma counter_increment_keys:
  "fst ` set (counter_increment key counts) = insert key (fst ` set counts)"
proof (induction counts)
  case Nil
  show ?case by simp
next
  case (Cons kv counts)
  obtain k v where kv: "kv = (k, v)" by (cases kv)
  show ?case
  proof (cases "k = key")
    case True
    then show ?thesis by (simp add: kv insert_absorb2)
  next
    case False
    then show ?thesis using Cons by (simp add: kv insert_commute)
  qed
qed

lemma counter_increment_distinct:
  "distinct (map fst counts) \<Longrightarrow> distinct (map fst (counter_increment key counts))"
proof (induction counts)
  case Nil
  show ?case by simp
next
  case (Cons kv counts)
  obtain k v where kv: "kv = (k, v)" by (cases kv)
  show ?case
  proof (cases "k = key")
    case True
    then show ?thesis using Cons.prems by (simp add: kv)
  next
    case False
    have "k \<notin> fst ` set (counter_increment key counts)"
      using False Cons.prems by (simp add: kv counter_increment_keys)
    then show ?thesis using False Cons by (simp add: kv)
  qed
qed

lemma counter_increment_positive:
  "\<forall>(k, v) \<in> set counts. 0 < v \<Longrightarrow> \<forall>(k, v) \<in> set (counter_increment key counts). 0 < v"
proof (induction counts)
  case Nil
  show ?case by simp
next
  case (Cons kv counts)
  obtain k v where kv: "kv = (k, v)" by (cases kv)
  show ?case
  proof (cases "k = key")
    case True
    then show ?thesis using Cons.prems by (simp add: kv)
  next
    case False
    then show ?thesis using Cons by (simp add: kv)
  qed
qed

lemma count_loop_sum:
  "sum_list (map snd (fold (\<lambda>finding counts. counter_increment (g finding) counts) findings counts))
     = sum_list (map snd counts) + len findings"
  by (induction findings arbitrary: counts) (simp_all add: counter_increment_sum len_def)

lemma count_loop_keys:
  "fst ` set (fold (\<lambda>finding counts. counter_increment (g finding) counts) findings counts)
     = g ` set findings \<union> fst ` set counts"
  by (induction findings arbitrary: counts) (auto simp: counter_increment_keys)

lemma count_loop_distinct:
  "distinct (map fst counts) \<Longrightarrow>
   distinct (map fst (fold (\<lambda>finding counts. counter_increment (g finding) counts) findings counts))"
  by (induction findings arbitrary: counts) (simp_all add: counter_increment_distinct)

lemma count_loop_positive:
  "\<forall>(k, v) \<in> set counts. 0 < v \<Longrightarrow>
   \<forall>(k, v) \<in> set (fold (\<lambda>finding counts. counter_increment (g finding) counts) findings counts). 0 < v"
proof (induction findings arbitrary: counts)
  case Nil
  then show ?case by simp
next
  case (Cons f findings)
  have "\<forall>(k, v) \<in> set (counter_increment (g f) counts). 0 < v"
    using Cons.prems by (rule counter_increment_positive)
  then show ?case using Cons.IH by simp
qed

text \<open>
  C3. For a list of N findings the summary's severity counts sum to N, its type counts
  sum to N and \<open>total_findings\<close> is N. The keys of the two mappings are exactly the
  severities and the types that occur (each once, each with a positive count), so a
  category that does not occur is absent, not zero. \<open>total_files\<close> is the number of
  distinct files named by the findings, or the supplied file count when there is no
  finding.
\<close>

theorem summary_counts:
  "sum_list (map snd (findings_by_severity (generate_summary findings n))) = len findings
   \<and> sum_list (map snd (findings_by_type (generate_summary findings n))) = len findings
   \<and> total_findings (generate_summary findings n) = len findings
   \<and> fst ` set (findings_by_severity (generate_summary findings n)) = severity ` set findings
   \<and> fst ` set (findings_by_type (generate_summary findings n)) = type ` set findings
   \<and> distinct (map fst (findings_by_severity (generate_summary findings n)))
   \<and> distinct (map fst (findings_by_type (generate_summary findings n)))
   \<and> (\<forall>(k, v) \<in> set (findings_by_severity (generate_summary findings n)). 0 < v)
   \<and> (\<forall>(k, v) \<in> set (findings_by_type (generate_summary findings n)). 0 < v)
   \<and> total_files (generate_summary findings n) =
       (if findings = [] then n
        else int (card ((\<lambda>f. file_path (location f)) ` set findings)))"
proof -
  let ?s = "generate_summary findings n"
  have by_sev: "findings_by_severity ?s =
      fold (\<lambda>finding counts. counter_increment (severity finding) counts) findings []"
    by (simp add: generate_summary_def Let_def)
  have by_typ: "findings_by_type ?s =
      fold (\<lambda>finding counts. counter_increment (type finding) counts) findings []"
    by (simp add: generate_summary_def Let_def)
  have sum_sev: "sum_list (map snd (findings_by_severity ?s)) = len findings"
    unfolding by_sev by (simp add: count_loop_sum)
  have sum_typ: "sum_list (map snd (findings_by_type ?s)) = len findings"
    unfolding by_typ by (simp add: count_loop_sum)
  have tot: "total_findings ?s = len findings"
    by (simp add: generate_summary_def Let_def)
  have keys_sev: "fst ` set (findings_by_severity ?s) = severity ` set findings"
    unfolding by_sev by (simp add: count_loop_keys)
  have keys_typ: "fst ` set (findings_by_type ?s) = type ` set findings"
    unfolding by_typ by (simp add: count_loop_keys)
  have dist_sev: "distinct (map fst (findings_by_severity ?s))"
    unfolding by_sev by (rule count_loop_distinct) simp
  have dist_typ: "distinct (map fst (findings_by_type ?s))"
    unfolding by_typ by (rule count_loop_distinct) simp
  have pos_sev: "\<forall>(k, v) \<in> set (findings_by_severity ?s). 0 < v"
    unfolding by_sev by (rule count_loop_positive) simp
  have pos_typ: "\<forall>(k, v) \<in> set (findings_by_type ?s). 0 < v"
    unfolding by_typ by (rule count_loop_positive) simp
  have files: "total_files ?s =
       (if findings = [] then n
        else int (card ((\<lambda>f. file_path (location f)) ` set findings)))"
    by (simp add: generate_summary_def Let_def)
  show ?thesis using sum_sev sum_typ tot keys_sev keys_typ dist_sev dist_typ pos_sev pos_typ files
    by blast
qed


theorem summary_counts_witness:
  "findings_by_severity (generate_summary example_findings 5) = [(CRITICAL, 1), (LOW, 2)]
   \<and> findings_by_type (generate_summary example_findings 5) = [(BUG, 1), (STYLE, 2)]
   \<and> total_findings (generate_summary example_findings 5) = 3
   \<and> total_files (generate_summary example_findings 5) = 2
   \<and> findings_by_severity (generate_summary [] 7) = []
   \<and> total_files (generate_summary [] 7) = 7"
proof -
  have files: "(\<lambda>f. file_path (location f)) ` set example_findings = {''a.py'', ''b.py''}"
    by (simp add: example_findings_def Location_file_only_def)
  have "card {''a.py'', ''b.py''} = 2" by simp
  then have "total_files (generate_summary example_findings 5) = 2"
    using summary_counts [of example_findings 5] files
    by (simp add: example_findings_def)
  moreover have "total_files (generate_summary [] 7) = 7"
    using summary_counts [of "[]" 7] by simp
  moreover have "total_findings (generate_summary example_findings 5) = 3"
    using summary_counts [of example_findings 5] by (simp add: example_findings_def len_def)
  moreover have "findings_by_severity (generate_summary example_findings 5)
                   = [(CRITICAL, 1), (LOW, 2)]"
    by (simp add: generate_summary_def example_findings_def Let_def)
  moreover have "findings_by_type (generate_summary example_findings 5) = [(BUG, 1), (STYLE, 2)]"
    by (simp add: generate_summary_def example_findings_def Let_def)
  moreover have "findings_by_severity (generate_summary [] 7) = []"
    by (simp add: generate_summary_def)
  ultimately show ?thesis by simp
qed

subsection \<open>Recommendations\<close>

lemma map_if_append:
  "map f (if b then xs @ [x] else xs) = map f xs @ (if b then [f x] else [])"
  by simp

lemma recommendations_by_rule:
  "map rule_output (generate_recommendations findings git_metrics) =
     spec_rules (count_severity CRITICAL findings) (count_severity HIGH findings)
       (count_type COMPLEXITY findings) (count_type TYPE_ERROR findings) git_metrics
       (count_fixable findings)"
proof (cases git_metrics)
  case None
  show ?thesis
    unfolding generate_recommendations_def Let_def None option.case map_if_append
    by (simp add: rule_output_def spec_rules_def count_severity_def count_type_def
        count_fixable_def)
next
  case (Some m)
  show ?thesis
    unfolding generate_recommendations_def Let_def Some option.case map_if_append
    by (simp add: rule_output_def spec_rules_def count_severity_def count_type_def
        count_fixable_def)
qed

lemma example_counts:
  "count_severity CRITICAL (replicate 10 example_type_error) = 0"
  "count_severity HIGH (replicate 10 example_type_error) = 0"
  "count_type COMPLEXITY (replicate 10 example_type_error) = 0"
  "count_type TYPE_ERROR (replicate 10 example_type_error) = 10"
  "count_fixable (replicate 10 example_type_error) = 0"
  by (simp_all add: count_severity_def count_type_def count_fixable_def len_def
      example_type_error_def)

lemma example_counts_critical:
  "count_severity CRITICAL (replicate 10 example_type_error @ [example_critical]) = 1"
  "count_severity HIGH (replicate 10 example_type_error @ [example_critical]) = 0"
  "count_type COMPLEXITY (replicate 10 example_type_error @ [example_critical]) = 0"
  "count_type TYPE_ERROR (replicate 10 example_type_error @ [example_critical]) = 11"
  "count_fixable (replicate 10 example_type_error @ [example_critical]) = 0"
  by (simp_all add: count_severity_def count_type_def count_fixable_def len_def
      example_type_error_def example_critical_def)

lemma example_counts_syntax_error:
  "count_severity CRITICAL (replicate 10 example_type_error @ [example_syntax_error]) = 1"
  "count_severity HIGH (replicate 10 example_type_error @ [example_syntax_error]) = 0"
  "count_type COMPLEXITY (replicate 10 example_type_error @ [example_syntax_error]) = 0"
  "count_type TYPE_ERROR (replicate 10 example_type_error @ [example_syntax_error]) = 10"
  "count_fixable (replicate 10 example_type_error @ [example_syntax_error]) = 0"
  by (simp_all add: count_severity_def count_type_def count_fixable_def len_def
      example_type_error_def example_syntax_error_def)

text \<open>
  C7, as stated, fails: a change of the finding list that takes the critical count from 0
  to 1 can move another statistic across its threshold. Ten type errors give no
  recommendation; adding a critical type error gives two, the urgent one and the
  type-safety one.
\<close>

theorem critical_finding_can_fire_second_rule:
  "count_severity CRITICAL (replicate 10 example_type_error) = 0
   \<and> count_severity CRITICAL (replicate 10 example_type_error @ [example_critical]) = 1
   \<and> map rule_output (generate_recommendations (replicate 10 example_type_error) None) = []
   \<and> map rule_output
         (generate_recommendations (replicate 10 example_type_error @ [example_critical]) None) =
       [(URGENT, ''Critical Issues'', Some ''medium''), (PRIO_HIGH, ''Type Safety'', Some ''medium'')]"
  by (simp add: recommendations_by_rule example_counts example_counts_critical spec_rules_def)

text \<open>
  C7, amended. The priorities, categories and efforts of the recommendations are those of
  seven rules, each a threshold check on its own statistic. If a change of the finding list
  takes the critical count from 0 to 1 and moves no other statistic across a threshold of
  its rule (high count across 5 or 20, complexity count across 5, type-error count across
  10, fixable count across 0), then for every metrics input exactly one recommendation is
  added, the urgent one, first in the list, and the priority, category and effort of every
  other recommendation are unchanged.
\<close>

theorem critical_finding_adds_urgent_recommendation:
  assumes "count_severity CRITICAL findings = 0"
    and "count_severity CRITICAL findings' = 1"
    and "(count_severity HIGH findings' > 5) = (count_severity HIGH findings > 5)"
    and "(count_severity HIGH findings' > 20) = (count_severity HIGH findings > 20)"
    and "(count_type COMPLEXITY findings' > 5) = (count_type COMPLEXITY findings > 5)"
    and "(count_type TYPE_ERROR findings' > 10) = (count_type TYPE_ERROR findings > 10)"
    and "(count_fixable findings' > 0) = (count_fixable findings > 0)"
  shows "map rule_output (generate_recommendations findings' git_metrics) =
           (URGENT, ''Critical Issues'', Some ''medium'')
             # map rule_output (generate_recommendations findings git_metrics)
         \<and> length (generate_recommendations findings' git_metrics) =
             length (generate_recommendations findings git_metrics) + 1
         \<and> map rule_output (generate_recommendations findings git_metrics) =
             spec_rules (count_severity CRITICAL findings) (count_severity HIGH findings)
               (count_type COMPLEXITY findings) (count_type TYPE_ERROR findings) git_metrics
               (count_fixable findings)"
proof -
  have eq: "map rule_output (generate_recommendations findings' git_metrics) =
           (URGENT, ''Critical Issues'', Some ''medium'')
             # map rule_output (generate_recommendations findings git_metrics)"
    unfolding recommendations_by_rule spec_rules_def using assms by simp
  have "length (map rule_output (generate_recommendations findings' git_metrics)) =
        length (map rule_output (generate_recommendations findings git_metrics)) + 1"
    unfolding eq by simp
  then have len: "length (generate_recommendations findings' git_metrics) =
             length (generate_recommendations findings git_metrics) + 1"
    by simp
  show ?thesis using eq len recommendations_by_rule by blast
qed

theorem critical_finding_adds_urgent_recommendation_witness:
  "map rule_output
     (generate_recommendations (replicate 10 example_type_error @ [example_syntax_error]) None) =
     (URGENT, ''Critical Issues'', Some ''medium'')
       # map rule_output (generate_recommendations (replicate 10 example_type_error) None)
   \<and> length (generate_recommendations (replicate 10 example_type_error @ [example_syntax_error])
               None) =
       length (generate_recommendations (replicate 10 example_type_error) None) + 1"
  using critical_finding_adds_urgent_recommendation
    [of "replicate 10 example_type_error"
        "replicate 10 example_type_error @ [example_syntax_error]" None]
  by (simp add: example_counts example_counts_syntax_error)

subsection \<open>Malformed linter output\<close>

text \<open>
  C6. When the linter's output is not valid JSON (\<open>json.loads\<close> raises
  \<open>JSONDecodeError\<close>), \<open>_parse_ruff_output\<close> returns, and what it returns is exactly one
  finding, of type bug and severity medium, whose message carries the decoder's
  description of the failure.
\<close>

theorem malformed_json_gives_one_finding:
  "loads output = Inl (JSONDecodeError text) \<Longrightarrow>
   parse_ruff_output u coerce loads output =
     Inr [\<lparr>type = BUG, severity = MEDIUM,
           location = \<lparr>file_path = ''ruff_output'', line = None, column = None,
                        end_line = None, function_name = None\<rparr>,
           message = ''Failed to parse ruff output: '' @ text,
           rule_id = Some ''RUFF003'', fix_available = False\<rparr>]"
  by (simp add: parse_ruff_output_def parse_ruff_output_try_def Location_file_only_def)

theorem malformed_json_gives_one_finding_witness:
  "parse_ruff_output ascii_only no_coercion (\<lambda>text. Inl (JSONDecodeError ''Expecting value''))
     ''error: unexpected argument'' =
     Inr [\<lparr>type = BUG, severity = MEDIUM,
           location = \<lparr>file_path = ''ruff_output'', line = None, column = None,
                        end_line = None, function_name = None\<rparr>,
           message = ''Failed to parse ruff output: Expecting value'',
           rule_id = Some ''RUFF003'', fix_available = False\<rparr>]"
  using malformed_json_gives_one_finding
    [of "\<lambda>text. Inl (JSONDecodeError ''Expecting value'')" "''error: unexpected argument''"
        "''Expecting value''" ascii_only no_coercion]
  by simp

subsection \<open>The diagnostic parser\<close>














lemma convert_mypy_match_fields:
  "convert_mypy_match u match_dict = Inr f \<Longrightarrow>
   type f = TYPE_ERROR
   \<and> severity f =
       (if match_dict ''level'' = Some ''error'' then get_severity_for_code (match_dict ''code'')
        else if match_dict ''level'' = Some ''warning'' then LOW
        else if match_dict ''level'' = Some ''note'' then INFO
        else MEDIUM)
   \<and> rule_id f =
       Some (case match_dict ''code'' of
               None \<Rightarrow> ''mypy''
             | Some code \<Rightarrow> if code \<noteq> [] then ''mypy:'' @ code else ''mypy'')"
  by (auto simp: convert_mypy_match_def Let_def split: sum.splits option.splits)

lemma parse_example_output:
  "parse_mypy_output ascii_only example_output =
     Inr [\<lparr>type = TYPE_ERROR, severity = MEDIUM,
           location = \<lparr>file_path = ''foo'' @ [newline], line = Some 1, column = Some 1,
                        end_line = None, function_name = None\<rparr>,
           message = ''x'', rule_id = Some ''mypy'', fix_available = False\<rparr>]"
  by code_simp

lemma spec_parse_example_output:
  "spec_parse_mypy_output ascii_only example_output = Inr []"
  by code_simp

lemma parse_example_output_bracket:
  "parse_mypy_output ascii_only example_output_bracket =
     Inr [\<lparr>type = TYPE_ERROR, severity = HIGH,
           location = \<lparr>file_path = ''a.py'', line = Some 1, column = Some 1,
                        end_line = None, function_name = None\<rparr>,
           message = ''x'', rule_id = Some ''mypy:attr-defined'', fix_available = False\<rparr>]"
  by code_simp

lemma spec_parse_example_output_bracket:
  "spec_parse_mypy_output ascii_only example_output_bracket =
     Inr [\<lparr>type = TYPE_ERROR, severity = MEDIUM,
           location = \<lparr>file_path = ''a.py'', line = Some 1, column = Some 1,
                        end_line = None, function_name = None\<rparr>,
           message = ''x'', rule_id = Some ''mypy'', fix_available = False\<rparr>]"
  by code_simp

lemma split_lines_examples:
  "split_lines example_output = [''foo'', '':1:1: error: x'']"
  "split_lines example_output_bracket = [''a.py:1:1: error: x'', ''[attr-defined]'']"
  "match_line ascii_only ''foo'' = None"
  "match_line ascii_only '':1:1: error: x'' = None"
  "match_line ascii_only ''[attr-defined]'' = None"
  by code_simp+


text \<open>
  C5 does not hold of \<open>_parse_mypy_output\<close>: the pattern's \<open>[^:]+\<close> and \<open>\\s+\<close> match
  line feeds, so a match can run over several lines. In the output \<open>foo\<close>, line feed,
  \<open>:1:1: error: x\<close> no line has the form of a diagnostic, and the parser returns one
  finding, for the file \<open>foo\<close> followed by a line feed. In the output
  \<open>a.py:1:1: error: x\<close>, line feed, \<open>[attr-defined]\<close> the first line is a diagnostic
  without a code, and the parser gives it the code of the second line: rule
  \<open>mypy:attr-defined\<close> and severity high instead of rule \<open>mypy\<close> and severity medium.
  The line-by-line reading of the claim gives no finding and the plain one.
\<close>

theorem diagnostic_parser_matches_across_lines:
  "split_lines example_output = [''foo'', '':1:1: error: x'']
   \<and> match_line ascii_only ''foo'' = None
   \<and> match_line ascii_only '':1:1: error: x'' = None
   \<and> parse_mypy_output ascii_only example_output =
     Inr [\<lparr>type = TYPE_ERROR, severity = MEDIUM,
           location = \<lparr>file_path = ''foo'' @ [newline], line = Some 1, column = Some 1,
                        end_line = None, function_name = None\<rparr>,
           message = ''x'', rule_id = Some ''mypy'', fix_available = False\<rparr>]
   \<and> spec_parse_mypy_output ascii_only example_output = Inr []
   \<and> parse_mypy_output ascii_only example_output_bracket =
     Inr [\<lparr>type = TYPE_ERROR, severity = HIGH,
           location = \<lparr>file_path = ''a.py'', line = Some 1, column = Some 1,
                        end_line = None, function_name = None\<rparr>,
           message = ''x'', rule_id = Some ''mypy:attr-defined'', fix_available = False\<rparr>]
   \<and> spec_parse_mypy_output ascii_only example_output_bracket =
     Inr [\<lparr>type = TYPE_ERROR, severity = MEDIUM,
           location = \<lparr>file_path = ''a.py'', line = Some 1, column = Some 1,
                        end_line = None, function_name = None\<rparr>,
           message = ''x'', rule_id = Some ''mypy'', fix_available = False\<rparr>]"
  using split_lines_examples parse_example_output spec_parse_example_output
    parse_example_output_bracket spec_parse_example_output_bracket
  by blast

subsection \<open>Messages of the findings\<close>


















end
